theory Spec2Isabelle
  imports Main "HOL-Library.Sublist"
begin

section \<open>Payment reconciliation of the marketplace backend\<close>

text \<open>
  The embedding covers the Payment model (schema defaults, the pre-save hook and the
  instance methods \<^verbatim>\<open>markCompleted\<close>, \<^verbatim>\<open>markFailed\<close>, \<^verbatim>\<open>addAttempt\<close>), the part of the Order model
  the payment routes write, the two mobile-money gateway classes and the route handlers
  of \<^verbatim>\<open>routes/payments.js\<close>.

  Conventions.
  \<^item> A date is the number of milliseconds \<^verbatim>\<open>Date.now()\<close> returns.
  \<^item> A JSON object (a provider response, a webhook body) is an association list of
    string fields; reading a field is \<open>map_of\<close>, and a missing field is \<open>None\<close>
    (JavaScript's \<^verbatim>\<open>undefined\<close>).
  \<^item> The database, the clock and the random generator form the world a handler runs
    in. Every \<^verbatim>\<open>Date.now()\<close> / \<^verbatim>\<open>new Date()\<close> of the source consumes one reading of the
    clock, every \<^verbatim>\<open>Math.random()\<close> one draw.
  \<^item> A thrown \<^verbatim>\<open>Error\<close> is its message, on the left of a sum.
  \<^item> The outcome of a call to a provider (axios, the Stripe SDK) is an argument of the
    function that makes the call.
  \<^item> Amounts are integers (the source has JavaScript numbers; no arithmetic is done on
    them in the modelled code).
  \<^item> Of Mongoose and MongoDB the model has what the schemas declare and the routes rely
    on: defaults are evaluated when a document is constructed, \<^verbatim>\<open>timestamps: true\<close> stamps
    \<^verbatim>\<open>createdAt\<close> and \<^verbatim>\<open>updatedAt\<close> when it is saved, the pre-save hooks run on each save,
    a save validates the document against the schema (\<^verbatim>\<open>required\<close>, \<^verbatim>\<open>min\<close>, \<^verbatim>\<open>enum\<close>)
    before any pre-save hook runs and throws a \<^verbatim>\<open>ValidationError\<close> when a validator
    fails, the unique index on \<^verbatim>\<open>paymentId\<close> rejects a duplicate insert, the TTL index on
    \<^verbatim>\<open>expiresAt\<close> expires documents.
\<close>

subsection \<open>Data model\<close>

type_synonym objectId = nat
type_synonym date = nat
type_synonym json = "(string \<times> string) list"

datatype currency = XOF | USD | EUR

datatype payment_method = orange_money | mtn_money | paypal | stripe | bank_transfer

datatype payment_status = pending | processing | completed | failed | cancelled | refunded

datatype operator = orange | mtn | moov

text \<open>An entry of \<^verbatim>\<open>attempts\<close>; \<^verbatim>\<open>timestamp\<close> has the default \<^verbatim>\<open>Date.now\<close>.\<close>

record attempt =
  att_timestamp :: date
  att_status :: string
  att_errorMessage :: string
  att_gatewayResponse :: json

text \<open>
  The Payment document. \<open>p_id\<close> is the database identifier \<^verbatim>\<open>_id\<close>, \<open>isNew\<close> Mongoose's
  flag of a document that has not been inserted yet, \<open>p_method\<close> the payment method. The sub-documents the modelled code
  never touches (fees, settlement, refund, metadata, paypalDetails) are left out.
\<close>

record payment =
  p_id :: objectId
  isNew :: bool
  paymentId :: "string option"
  order :: objectId
  user :: objectId
  amount :: int
  currency :: currency
  p_method :: payment_method
  status :: payment_status
  gateway_transactionId :: "string option"
  gateway_gatewayResponse :: "json option"
  mobileMoneyDetails_phoneNumber :: "string option"
  mobileMoneyDetails_operator :: "operator option"
  stripeDetails_paymentIntentId :: "string option"
  attempts :: "attempt list"
  completedAt :: "date option"
  failedAt :: "date option"
  expiresAt :: date
  createdAt :: "date option"
  updatedAt :: "date option"

datatype order_status =
  o_pending | o_confirmed | o_processing | o_shipped | o_delivered
  | o_cancelled | o_refunded | o_disputed

record timeline_entry =
  tl_status :: order_status
  tl_timestamp :: date
  tl_note :: string

text \<open>
  The Order document as the payment routes use it. \<open>paymentStatus\<close> is a string: the
  routes assign \<^verbatim>\<open>'paid'\<close> to it, a value the enum of the Order schema (\<^verbatim>\<open>pending\<close>,
  \<^verbatim>\<open>completed\<close>, \<^verbatim>\<open>failed\<close>, \<^verbatim>\<open>refunded\<close>) does not list.
\<close>

record order_doc =
  o_id :: objectId
  buyer :: objectId
  o_status :: order_status
  paymentStatus :: string
  timeline :: "timeline_entry list"
  o_updatedAt :: "date option"

record world =
  payments :: "payment list"
  orders :: "order_doc list"
  clock :: "nat \<Rightarrow> date"
  reads :: nat
  random :: "nat \<Rightarrow> string"
  draws :: nat

text \<open>\<^verbatim>\<open>Date.now()\<close>: the next reading of the clock.\<close>

definition Date_now :: "world \<Rightarrow> date \<times> world" where
  "Date_now w = (clock w (reads w), w\<lparr>reads := Suc (reads w)\<rparr>)"

text \<open>\<^verbatim>\<open>Math.random().toString(36).substr(2, 9)\<close>: the next draw, already as a string.\<close>

definition Math_random_suffix :: "world \<Rightarrow> string \<times> world" where
  "Math_random_suffix w = (random w (draws w), w\<lparr>draws := Suc (draws w)\<rparr>)"

text \<open>The decimal digits of a number, as a template literal prints it.\<close>

definition digit_char :: "nat \<Rightarrow> char" where
  "digit_char d = ''0123456789'' ! d"

fun decimal :: "nat \<Rightarrow> string" where
  "decimal n = (if n < 10 then [digit_char n] else decimal (n div 10) @ [digit_char (n mod 10)])"

declare decimal.simps [simp del]

text \<open>A value that JavaScript's \<^verbatim>\<open>!x\<close> takes for absent: undefined or the empty string.\<close>

definition falsy :: "string option \<Rightarrow> bool" where
  "falsy s = (s = None \<or> s = Some [])"

subsection \<open>The Payment model\<close>

text \<open>
  \<^verbatim>\<open>new Payment({...})\<close>: the given fields, and the schema defaults evaluated when the
  document is constructed: \<^verbatim>\<open>status: 'pending'\<close> and
  \<^verbatim>\<open>expiresAt: new Date(Date.now() + 30 * 60 * 1000)\<close>.
\<close>

record payment_init =
  i_order :: objectId
  i_user :: objectId
  i_amount :: int
  i_currency :: currency
  i_method :: payment_method
  i_phoneNumber :: "string option"
  i_operator :: "operator option"
  i_paymentIntentId :: "string option"

text \<open>The identifier the driver gives a new document: one no stored Payment has.\<close>

definition new_ObjectId :: "world \<Rightarrow> objectId" where
  "new_ObjectId w = Suc (fold max (map p_id (payments w)) 0)"

definition new_Payment :: "payment_init \<Rightarrow> world \<Rightarrow> payment \<times> world" where
  "new_Payment i w =
     (let (t, w1) = Date_now w in
      (\<lparr> p_id = new_ObjectId w, isNew = True, paymentId = None,
         order = i_order i, user = i_user i, amount = i_amount i,
         currency = i_currency i, p_method = i_method i, status = pending,
         gateway_transactionId = None, gateway_gatewayResponse = None,
         mobileMoneyDetails_phoneNumber = i_phoneNumber i,
         mobileMoneyDetails_operator = i_operator i,
         stripeDetails_paymentIntentId = i_paymentIntentId i,
         attempts = [], completedAt = None, failedAt = None,
         expiresAt = t + 30 * 60 * 1000,
         createdAt = None, updatedAt = None \<rparr>, w1))"

text \<open>
  \<^verbatim>\<open>timestamps: true\<close>: saving stamps \<^verbatim>\<open>updatedAt\<close>, and \<^verbatim>\<open>createdAt\<close> on a new document.
\<close>

definition stamp_payment :: "payment \<Rightarrow> world \<Rightarrow> payment \<times> world" where
  "stamp_payment p w =
     (let (t, w1) = Date_now w in
      (p\<lparr>createdAt := (if isNew p \<and> createdAt p = None then Some t else createdAt p),
         updatedAt := Some t\<rparr>, w1))"

text \<open>
  \<^verbatim>\<open>paymentSchema.pre('save', ...)\<close>:
  \<^verbatim>\<open>if (this.isNew && !this.paymentId) this.paymentId = `PAY_${Date.now()}_${Math.random()...}`\<close>
\<close>

definition pre_save :: "payment \<Rightarrow> world \<Rightarrow> payment \<times> world" where
  "pre_save p w =
     (if isNew p \<and> falsy (paymentId p) then
        (let (t, w1) = Date_now w;
             (r, w2) = Math_random_suffix w1
         in (p\<lparr>paymentId := Some (''PAY_'' @ decimal t @ ''_'' @ r)\<rparr>, w2))
      else (p, w))"

text \<open>The message of a \<^verbatim>\<open>ValidationError\<close>: the model name and the failed paths.\<close>

fun join_errors :: "string list \<Rightarrow> string" where
  "join_errors [] = []"
| "join_errors [e] = e"
| "join_errors (e # es) = e @ '', '' @ join_errors es"

definition validation_failed :: "string \<Rightarrow> string list \<Rightarrow> string" where
  "validation_failed model errors = model @ '' validation failed: '' @ join_errors errors"

text \<open>
  The validators of the Payment schema that a document of the model can fail:
  \<^verbatim>\<open>paymentId: { required: [true, 'Payment ID is required'] }\<close> and
  \<^verbatim>\<open>amount: { min: [0, 'Amount cannot be negative'] }\<close>. Order, user and amount are
  always present in the model, and currency, the payment method, status and operator
  are values of their enums by type.
\<close>

definition validate_payment :: "payment \<Rightarrow> string list" where
  "validate_payment p =
     (if falsy (paymentId p) then [''paymentId: Payment ID is required''] else []) @
     (if amount p < 0 then [''amount: Amount cannot be negative''] else [])"

text \<open>
  \<^verbatim>\<open>payment.save()\<close>. A new document is validated first: Mongoose validates before the
  pre-save hooks, so a new document without \<^verbatim>\<open>paymentId\<close> is rejected before the hook
  that would generate one runs. Then the timestamps and the pre-save hook run, and the
  document is inserted; the unique index on \<^verbatim>\<open>paymentId\<close> rejects an insert whose
  \<^verbatim>\<open>paymentId\<close> a stored Payment already has. A stored document is stamped and replaced
  under its \<^verbatim>\<open>_id\<close>: it passed the validators when it was inserted, and the code assigns
  to a loaded Payment only values they accept (a status of the enum, dates, gateway data,
  attempts).
\<close>

definition save_payment :: "payment \<Rightarrow> world \<Rightarrow> (string + payment) \<times> world" where
  "save_payment p w =
     (if isNew p \<and> validate_payment p \<noteq> []
      then (Inl (validation_failed ''Payment'' (validate_payment p)), w)
      else
       (let (p1, w1) = stamp_payment p w;
            (p2, w2) = pre_save p1 w1
        in if isNew p2 then
             (if paymentId p2 \<in> set (map paymentId (payments w2))
              then (Inl ''E11000 duplicate key error'', w2)
              else (let p3 = p2\<lparr>isNew := False\<rparr>
                    in (Inr p3, w2\<lparr>payments := payments w2 @ [p3]\<rparr>)))
           else if p_id p2 \<in> set (map p_id (payments w2))
             then (Inr p2, w2\<lparr>payments := map (\<lambda>q. if p_id q = p_id p2 then p2 else q) (payments w2)\<rparr>)
           else (Inl ''DocumentNotFoundError'', w2)))"

text \<open>
  \<^verbatim>\<open>markCompleted(gatewayResponse)\<close>:
  \<^verbatim>\<open>this.status = 'completed'; this.completedAt = new Date();\<close>
  \<^verbatim>\<open>this.gateway.gatewayResponse = gatewayResponse; return this.save();\<close>
\<close>

definition markCompleted :: "json \<Rightarrow> payment \<Rightarrow> world \<Rightarrow> (string + payment) \<times> world" where
  "markCompleted gatewayResponse p w =
     (let (t, w1) = Date_now w in
      save_payment (p\<lparr>status := completed, completedAt := Some t,
                      gateway_gatewayResponse := Some gatewayResponse\<rparr>) w1)"

text \<open>
  \<^verbatim>\<open>markFailed(errorMessage, gatewayResponse)\<close>:
  \<^verbatim>\<open>this.status = 'failed'; this.failedAt = new Date();\<close>
  \<^verbatim>\<open>this.attempts.push({status: 'failed', errorMessage, gatewayResponse}); return this.save();\<close>
\<close>

definition markFailed :: "string \<Rightarrow> json \<Rightarrow> payment \<Rightarrow> world \<Rightarrow> (string + payment) \<times> world" where
  "markFailed errorMessage gatewayResponse p w =
     (let (t, w1) = Date_now w;
          (ta, w2) = Date_now w1
      in save_payment
           (p\<lparr>status := failed, failedAt := Some t,
              attempts := attempts p @
                [\<lparr>att_timestamp = ta, att_status = ''failed'',
                  att_errorMessage = errorMessage, att_gatewayResponse = gatewayResponse\<rparr>]\<rparr>) w2)"

text \<open>\<^verbatim>\<open>addAttempt(status, errorMessage, gatewayResponse)\<close>: push an entry and save.\<close>

definition addAttempt :: "string \<Rightarrow> string \<Rightarrow> json \<Rightarrow> payment \<Rightarrow> world \<Rightarrow> (string + payment) \<times> world" where
  "addAttempt st errorMessage gatewayResponse p w =
     (let (ta, w1) = Date_now w
      in save_payment
           (p\<lparr>attempts := attempts p @
                [\<lparr>att_timestamp = ta, att_status = st,
                  att_errorMessage = errorMessage, att_gatewayResponse = gatewayResponse\<rparr>]\<rparr>) w1)"

text \<open>
  \<^verbatim>\<open>paymentSchema.index({ expiresAt: 1 }, { expireAfterSeconds: 0 })\<close>: the TTL index. The
  database deletes a document once the indexed date plus \<^verbatim>\<open>expireAfterSeconds\<close> lies in the
  past. The index has no filter: the sweep reads no other field.
\<close>

definition expireAfterSeconds :: nat where
  "expireAfterSeconds = 0"

definition ttl_expired :: "date \<Rightarrow> payment \<Rightarrow> bool" where
  "ttl_expired now p = (expiresAt p + 1000 * expireAfterSeconds < now)"

definition ttl_sweep :: "date \<Rightarrow> world \<Rightarrow> world" where
  "ttl_sweep now w = w\<lparr>payments := filter (\<lambda>p. \<not> ttl_expired now p) (payments w)\<rparr>"

text \<open>
  The queries of the routes: the first stored document that matches. A document loaded
  from the database is not new. An absent key (\<open>None\<close>) matches the documents without the
  field, as a \<^verbatim>\<open>null\<close> query does.
\<close>

definition loaded :: "payment \<Rightarrow> payment" where
  "loaded p = p\<lparr>isNew := False\<rparr>"

definition Payment_findOne_paymentId :: "string option \<Rightarrow> world \<Rightarrow> payment option" where
  "Payment_findOne_paymentId key w =
     map_option loaded (find (\<lambda>p. paymentId p = key) (payments w))"

definition Payment_findOne_paymentIntentId :: "string option \<Rightarrow> world \<Rightarrow> payment option" where
  "Payment_findOne_paymentIntentId key w =
     map_option loaded (find (\<lambda>p. stripeDetails_paymentIntentId p = key) (payments w))"

text \<open>
  Creating a Payment, as every initiation route does it:
  \<^verbatim>\<open>const payment = new Payment({...}); await payment.save();\<close>
\<close>

definition create_payment :: "payment_init \<Rightarrow> world \<Rightarrow> (string + payment) \<times> world" where
  "create_payment i w = (let (p, w1) = new_Payment i w in save_payment p w1)"

subsection \<open>The Order model, as the payment routes use it\<close>

definition Order_findById :: "objectId \<Rightarrow> world \<Rightarrow> order_doc option" where
  "Order_findById i w = find (\<lambda>ord. o_id ord = i) (orders w)"

fun order_status_name :: "order_status \<Rightarrow> string" where
  "order_status_name o_pending = ''pending''"
| "order_status_name o_confirmed = ''confirmed''"
| "order_status_name o_processing = ''processing''"
| "order_status_name o_shipped = ''shipped''"
| "order_status_name o_delivered = ''delivered''"
| "order_status_name o_cancelled = ''cancelled''"
| "order_status_name o_refunded = ''refunded''"
| "order_status_name o_disputed = ''disputed''"

text \<open>
  The validator of the Order schema that a document of the model can fail:
  \<^verbatim>\<open>paymentStatus: { enum: ['pending', 'completed', 'failed', 'refunded'] }\<close>.
\<close>

definition paymentStatus_enum :: "string list" where
  "paymentStatus_enum = [''pending'', ''completed'', ''failed'', ''refunded'']"

definition validate_order :: "order_doc \<Rightarrow> string list" where
  "validate_order ord =
     (if paymentStatus ord \<in> set paymentStatus_enum then []
      else [''paymentStatus: `'' @ paymentStatus ord @
            ''` is not a valid enum value for path `paymentStatus`.''])"

text \<open>The message of the error when \<^verbatim>\<open>'paid'\<close> is assigned, which the enum does not list.\<close>

definition paid_rejected :: string where
  "paid_rejected =
     ''Order validation failed: paymentStatus: `paid` is not a valid enum value for path `paymentStatus`.''"

text \<open>
  \<^verbatim>\<open>order.save()\<close> of a stored order: the document is validated; then \<^verbatim>\<open>updatedAt\<close> is
  stamped, the pre-save hook
  \<^verbatim>\<open>if (this.isModified('status') && !this.isNew) this.timeline.push({...})\<close> runs (the
  status is modified when it differs from the stored one), and the document replaces the
  stored one. The order-number branch of the hook is for new orders, which the payment
  routes never make.
\<close>

definition save_order :: "order_doc \<Rightarrow> world \<Rightarrow> (string + order_doc) \<times> world" where
  "save_order ord w =
     (if validate_order ord \<noteq> []
      then (Inl (validation_failed ''Order'' (validate_order ord)), w)
      else case Order_findById (o_id ord) w of
        None \<Rightarrow> (Inl ''DocumentNotFoundError'', w)
      | Some stored \<Rightarrow>
          (let (t, w1) = Date_now w;
               ord1 = ord\<lparr>o_updatedAt := Some t\<rparr>;
               (ord2, w2) =
                 (if o_status ord1 \<noteq> o_status stored then
                    (let (tt, w') = Date_now w1 in
                     (ord1\<lparr>timeline := timeline ord1 @
                        [\<lparr>tl_status = o_status ord1, tl_timestamp = tt,
                          tl_note = ''Status changed to '' @ order_status_name (o_status ord1)\<rparr>]\<rparr>,
                      w'))
                  else (ord1, w1))
           in (Inr ord2,
               w2\<lparr>orders := map (\<lambda>q. if o_id q = o_id ord2 then ord2 else q) (orders w2)\<rparr>)))"

subsection \<open>Gateway clients\<close>

datatype 'a outcome = Threw string | Returned 'a

text \<open>
  Each call takes the outcomes of its HTTP requests: \<open>token_post\<close> for the token endpoint,
  \<open>api_call\<close> for the payment or status endpoint. A call that is not reached is not read.
\<close>

definition OrangeMoneyAPI_getAccessToken :: "json outcome \<Rightarrow> string option outcome" where
  "OrangeMoneyAPI_getAccessToken token_post =
     (case token_post of
        Threw e \<Rightarrow> Threw ''Failed to get Orange Money access token''
      | Returned d \<Rightarrow> Returned (map_of d ''access_token''))"

definition OrangeMoneyAPI_initiatePayment :: "json outcome \<Rightarrow> json outcome \<Rightarrow> json outcome" where
  "OrangeMoneyAPI_initiatePayment token_post api_call =
     (case OrangeMoneyAPI_getAccessToken token_post of
        Threw e \<Rightarrow> Threw ''Failed to initiate Orange Money payment''
      | Returned token \<Rightarrow>
          (case api_call of
             Threw e \<Rightarrow> Threw ''Failed to initiate Orange Money payment''
           | Returned d \<Rightarrow> Returned d))"

definition OrangeMoneyAPI_checkPaymentStatus :: "json outcome \<Rightarrow> json outcome \<Rightarrow> json outcome" where
  "OrangeMoneyAPI_checkPaymentStatus token_post api_call =
     (case OrangeMoneyAPI_getAccessToken token_post of
        Threw e \<Rightarrow> Threw ''Failed to check Orange Money payment status''
      | Returned token \<Rightarrow>
          (case api_call of
             Threw e \<Rightarrow> Threw ''Failed to check Orange Money payment status''
           | Returned d \<Rightarrow> Returned d))"

definition MTNMoneyAPI_getAccessToken :: "json outcome \<Rightarrow> string option outcome" where
  "MTNMoneyAPI_getAccessToken token_post =
     (case token_post of
        Threw e \<Rightarrow> Threw ''Failed to get MTN Money access token''
      | Returned d \<Rightarrow> Returned (map_of d ''access_token''))"

text \<open>\<^verbatim>\<open>{ transactionId, ...response.data }\<close>: a field of the response overrides the generated one.\<close>

definition spread_transactionId :: "string \<Rightarrow> json \<Rightarrow> json" where
  "spread_transactionId tid d =
     (''transactionId'', (case map_of d ''transactionId'' of None \<Rightarrow> tid | Some v \<Rightarrow> v))
       # filter (\<lambda>kv. fst kv \<noteq> ''transactionId'') d"

definition MTNMoneyAPI_requestPayment ::
  "json outcome \<Rightarrow> json outcome \<Rightarrow> world \<Rightarrow> json outcome \<times> world" where
  "MTNMoneyAPI_requestPayment token_post api_call w =
     (case MTNMoneyAPI_getAccessToken token_post of
        Threw e \<Rightarrow> (Threw ''Failed to initiate MTN Money payment'', w)
      | Returned token \<Rightarrow>
          (let (t, w1) = Date_now w;
               (r, w2) = Math_random_suffix w1;
               transactionId = ''mtn_'' @ decimal t @ ''_'' @ r
           in case api_call of
                Threw e \<Rightarrow> (Threw ''Failed to initiate MTN Money payment'', w2)
              | Returned d \<Rightarrow> (Returned (spread_transactionId transactionId d), w2)))"

definition MTNMoneyAPI_checkPaymentStatus :: "json outcome \<Rightarrow> json outcome \<Rightarrow> json outcome" where
  "MTNMoneyAPI_checkPaymentStatus token_post api_call =
     (case MTNMoneyAPI_getAccessToken token_post of
        Threw e \<Rightarrow> Threw ''Failed to check MTN Money payment status''
      | Returned token \<Rightarrow>
          (case api_call of
             Threw e \<Rightarrow> Threw ''Failed to check MTN Money payment status''
           | Returned d \<Rightarrow> Returned d))"

subsection \<open>Requests and replies\<close>

text \<open>
  A request carries its headers, the errors express-validator found
  (\<^verbatim>\<open>validationResult(req)\<close>) and its body. On the routes behind \<^verbatim>\<open>authenticateToken\<close> the
  handler takes the authenticated \<^verbatim>\<open>req.user.id\<close> as an argument of its own.
\<close>

record 'b request =
  headers :: json
  validation_errors :: "string list"
  body :: 'b

record initiate_body =
  b_amount :: int
  b_currency :: currency
  b_phoneNumber :: string
  b_orderId :: objectId

record payment_view =
  v_id :: "string option"
  v_status :: payment_status
  v_amount :: int
  v_currency :: currency
  v_method :: payment_method
  v_createdAt :: "date option"
  v_completedAt :: "date option"

text \<open>
  What a handler sends. \<open>Uncaught\<close> is an error thrown outside every \<^verbatim>\<open>try\<close>: it leaves
  the handler for the error middleware.
\<close>

datatype reply =
    ValidationFailed "string list"
  | NotFound string
  | ServerError string
  | IntentCreated "string option" "string option"
  | Initiated string "string option" "string option" "string option"
  | StatusReport payment_view "json option"
  | WebhookSuccess
  | StripeSignatureError string
  | StripeReceived
  | Uncaught string

fun http_status :: "reply \<Rightarrow> nat" where
  "http_status (ValidationFailed es) = 400"
| "http_status (NotFound m) = 404"
| "http_status (ServerError m) = 500"
| "http_status (IntentCreated secret pid) = 200"
| "http_status (Initiated m pid tid url) = 200"
| "http_status (StatusReport v g) = 200"
| "http_status WebhookSuccess = 200"
| "http_status (StripeSignatureError m) = 400"
| "http_status StripeReceived = 200"
| "http_status (Uncaught m) = 500"

text \<open>\<^verbatim>\<open>error.message || fallback\<close>\<close>

definition message_or :: "string \<Rightarrow> string \<Rightarrow> string" where
  "message_or m fallback = (if m = [] then fallback else m)"

subsection \<open>Initiation routes\<close>

text \<open>\<^verbatim>\<open>POST /stripe/create-intent\<close>; \<open>create_call\<close> is the outcome of \<^verbatim>\<open>stripe.paymentIntents.create\<close>.\<close>

definition stripe_create_intent ::
  "objectId \<Rightarrow> initiate_body request \<Rightarrow> json outcome \<Rightarrow> world \<Rightarrow> reply \<times> world" where
  "stripe_create_intent uid req create_call w =
     (if validation_errors req \<noteq> [] then (ValidationFailed (validation_errors req), w)
      else case Order_findById (b_orderId (body req)) w of
        None \<Rightarrow> (NotFound ''Order not found'', w)
      | Some ord \<Rightarrow>
          if buyer ord \<noteq> uid then (NotFound ''Order not found'', w)
          else (case create_call of
            Threw e \<Rightarrow> (ServerError ''Failed to create payment intent'', w)
          | Returned paymentIntent \<Rightarrow>
              (let (p, w1) = new_Payment
                     \<lparr>i_order = b_orderId (body req), i_user = uid,
                      i_amount = b_amount (body req), i_currency = b_currency (body req),
                      i_method = stripe, i_phoneNumber = None, i_operator = None,
                      i_paymentIntentId = map_of paymentIntent ''id''\<rparr> w
               in case save_payment p w1 of
                    (Inl e, w2) \<Rightarrow> (ServerError ''Failed to create payment intent'', w2)
                  | (Inr p1, w2) \<Rightarrow>
                      (IntentCreated (map_of paymentIntent ''client_secret'') (paymentId p1), w2))))"

text \<open>\<^verbatim>\<open>POST /orange-money/initiate\<close>\<close>

definition orange_money_initiate ::
  "objectId \<Rightarrow> initiate_body request \<Rightarrow> json outcome \<Rightarrow> json outcome \<Rightarrow> world \<Rightarrow> reply \<times> world" where
  "orange_money_initiate uid req token_post api_call w =
     (if validation_errors req \<noteq> [] then (ValidationFailed (validation_errors req), w)
      else case Order_findById (b_orderId (body req)) w of
        None \<Rightarrow> (NotFound ''Order not found'', w)
      | Some ord \<Rightarrow>
          if buyer ord \<noteq> uid then (NotFound ''Order not found'', w)
          else
            (let (p, w1) = new_Payment
                   \<lparr>i_order = b_orderId (body req), i_user = uid,
                    i_amount = b_amount (body req), i_currency = XOF,
                    i_method = orange_money,
                    i_phoneNumber = Some (b_phoneNumber (body req)),
                    i_operator = Some orange, i_paymentIntentId = None\<rparr> w
             in case save_payment p w1 of
                  (Inl e, w2) \<Rightarrow>
                    (ServerError (message_or e ''Failed to initiate Orange Money payment''), w2)
                | (Inr p1, w2) \<Rightarrow>
                    (case OrangeMoneyAPI_initiatePayment token_post api_call of
                       Threw e \<Rightarrow>
                         (ServerError (message_or e ''Failed to initiate Orange Money payment''), w2)
                     | Returned orangeResponse \<Rightarrow>
                         (case save_payment
                                 (p1\<lparr>gateway_transactionId := map_of orangeResponse ''transaction_id'',
                                     gateway_gatewayResponse := Some orangeResponse,
                                     status := processing\<rparr>) w2 of
                            (Inl e, w3) \<Rightarrow>
                              (ServerError (message_or e ''Failed to initiate Orange Money payment''), w3)
                          | (Inr p2, w3) \<Rightarrow>
                              (Initiated
                                 ''Orange Money payment initiated. Please complete the payment on your phone.''
                                 (paymentId p2)
                                 (map_of orangeResponse ''transaction_id'')
                                 (map_of orangeResponse ''payment_url''), w3)))))"

text \<open>\<^verbatim>\<open>POST /mtn-money/initiate\<close>\<close>

definition mtn_money_initiate ::
  "objectId \<Rightarrow> initiate_body request \<Rightarrow> json outcome \<Rightarrow> json outcome \<Rightarrow> world \<Rightarrow> reply \<times> world" where
  "mtn_money_initiate uid req token_post api_call w =
     (if validation_errors req \<noteq> [] then (ValidationFailed (validation_errors req), w)
      else case Order_findById (b_orderId (body req)) w of
        None \<Rightarrow> (NotFound ''Order not found'', w)
      | Some ord \<Rightarrow>
          if buyer ord \<noteq> uid then (NotFound ''Order not found'', w)
          else
            (let (p, w1) = new_Payment
                   \<lparr>i_order = b_orderId (body req), i_user = uid,
                    i_amount = b_amount (body req), i_currency = XOF,
                    i_method = mtn_money,
                    i_phoneNumber = Some (b_phoneNumber (body req)),
                    i_operator = Some mtn, i_paymentIntentId = None\<rparr> w
             in case save_payment p w1 of
                  (Inl e, w2) \<Rightarrow>
                    (ServerError (message_or e ''Failed to initiate MTN Money payment''), w2)
                | (Inr p1, w2) \<Rightarrow>
                    (case MTNMoneyAPI_requestPayment token_post api_call w2 of
                       (Threw e, w3) \<Rightarrow>
                         (ServerError (message_or e ''Failed to initiate MTN Money payment''), w3)
                     | (Returned mtnResponse, w3) \<Rightarrow>
                         (case save_payment
                                 (p1\<lparr>gateway_transactionId := map_of mtnResponse ''transactionId'',
                                     gateway_gatewayResponse := Some mtnResponse,
                                     status := processing\<rparr>) w3 of
                            (Inl e, w4) \<Rightarrow>
                              (ServerError (message_or e ''Failed to initiate MTN Money payment''), w4)
                          | (Inr p2, w4) \<Rightarrow>
                              (Initiated
                                 ''MTN Money payment initiated. Please complete the payment on your phone.''
                                 (paymentId p2)
                                 (map_of mtnResponse ''transactionId'')
                                 None, w4)))))"

subsection \<open>Order linkage\<close>

text \<open>
  The block the status route and both webhooks have inline:
  \<^verbatim>\<open>const order = await Order.findById(payment.order);\<close>
  \<^verbatim>\<open>if (order) { order.paymentStatus = 'paid'; order.status = 'confirmed'; await order.save(); }\<close>
\<close>

definition update_order_paid :: "objectId \<Rightarrow> world \<Rightarrow> (string + unit) \<times> world" where
  "update_order_paid oid w =
     (case Order_findById oid w of
        None \<Rightarrow> (Inr (), w)
      | Some ord \<Rightarrow>
          (case save_order (ord\<lparr>paymentStatus := ''paid'', o_status := o_confirmed\<rparr>) w of
             (Inl e, w1) \<Rightarrow> (Inl e, w1)
           | (Inr saved, w1) \<Rightarrow> (Inr (), w1)))"

subsection \<open>Status route\<close>

text \<open>
  The gateway consulted for a payment: \<open>None\<close> when no branch applies
  (\<^verbatim>\<open>gatewayStatus\<close> stays \<^verbatim>\<open>null\<close>). For Stripe \<open>api_call\<close> is the outcome of
  \<^verbatim>\<open>stripe.paymentIntents.retrieve\<close> and the status is \<^verbatim>\<open>{ status: paymentIntent.status }\<close>.
\<close>

definition check_gateway :: "payment \<Rightarrow> json outcome \<Rightarrow> json outcome \<Rightarrow> json option outcome" where
  "check_gateway payment token_post api_call =
     (if p_method payment = orange_money \<and> \<not> falsy (gateway_transactionId payment) then
        (case OrangeMoneyAPI_checkPaymentStatus token_post api_call of
           Threw e \<Rightarrow> Threw e | Returned d \<Rightarrow> Returned (Some d))
      else if p_method payment = mtn_money \<and> \<not> falsy (gateway_transactionId payment) then
        (case MTNMoneyAPI_checkPaymentStatus token_post api_call of
           Threw e \<Rightarrow> Threw e | Returned d \<Rightarrow> Returned (Some d))
      else if p_method payment = stripe \<and> \<not> falsy (stripeDetails_paymentIntentId payment) then
        (case api_call of
           Threw e \<Rightarrow> Threw e
         | Returned paymentIntent \<Rightarrow>
             Returned (Some (case map_of paymentIntent ''status'' of
                               None \<Rightarrow> [] | Some s \<Rightarrow> [(''status'', s)])))
      else Returned None)"

definition isCompleted :: "json \<Rightarrow> bool" where
  "isCompleted gatewayStatus =
     (map_of gatewayStatus ''status'' = Some ''succeeded'' \<or>
      map_of gatewayStatus ''status'' = Some ''SUCCESSFUL'' \<or>
      map_of gatewayStatus ''status'' = Some ''completed'')"

definition view :: "payment \<Rightarrow> payment_view" where
  "view p = \<lparr>v_id = paymentId p, v_status = status p, v_amount = amount p,
             v_currency = currency p, v_method = p_method p,
             v_createdAt = createdAt p, v_completedAt = completedAt p\<rparr>"

text \<open>\<^verbatim>\<open>GET /status/:paymentId\<close>\<close>

definition payment_status_route ::
  "objectId \<Rightarrow> string \<Rightarrow> json outcome \<Rightarrow> json outcome \<Rightarrow> world \<Rightarrow> reply \<times> world" where
  "payment_status_route uid paymentId_param token_post api_call w =
     (case Payment_findOne_paymentId (Some paymentId_param) w of
        None \<Rightarrow> (NotFound ''Payment not found'', w)
      | Some payment \<Rightarrow>
          if user payment \<noteq> uid then (NotFound ''Payment not found'', w)
          else (case check_gateway payment token_post api_call of
            Threw e \<Rightarrow> (ServerError ''Failed to check payment status'', w)
          | Returned None \<Rightarrow> (StatusReport (view payment) None, w)
          | Returned (Some gatewayStatus) \<Rightarrow>
              if isCompleted gatewayStatus \<and> status payment \<noteq> completed then
                (let (t, w1) = Date_now w;
                     payment1 = payment\<lparr>status := completed, completedAt := Some t\<rparr>
                 in case update_order_paid (order payment1) w1 of
                      (Inl e, w2) \<Rightarrow> (ServerError ''Failed to check payment status'', w2)
                    | (Inr u, w2) \<Rightarrow>
                        (case save_payment payment1 w2 of
                           (Inl e, w3) \<Rightarrow> (ServerError ''Failed to check payment status'', w3)
                         | (Inr payment2, w3) \<Rightarrow>
                             (StatusReport (view payment2) (Some gatewayStatus), w3)))
              else (StatusReport (view payment) (Some gatewayStatus), w)))"

subsection \<open>Webhooks\<close>

text \<open>
  \<^verbatim>\<open>POST /webhook/orange-money\<close>. The route has no middleware; the handler reads
  \<^verbatim>\<open>req.body\<close> only.
\<close>

definition orange_money_webhook :: "json request \<Rightarrow> world \<Rightarrow> reply \<times> world" where
  "orange_money_webhook req w =
     (case Payment_findOne_paymentId (map_of (body req) ''reference'') w of
        None \<Rightarrow> (NotFound ''Payment not found'', w)
      | Some payment \<Rightarrow>
          if map_of (body req) ''status'' = Some ''SUCCESS'' then
            (case markCompleted (body req) payment w of
               (Inl e, w1) \<Rightarrow> (ServerError ''Webhook processing failed'', w1)
             | (Inr p1, w1) \<Rightarrow>
                 (case update_order_paid (order p1) w1 of
                    (Inl e, w2) \<Rightarrow> (ServerError ''Webhook processing failed'', w2)
                  | (Inr u, w2) \<Rightarrow> (WebhookSuccess, w2)))
          else if map_of (body req) ''status'' = Some ''FAILED'' then
            (case markFailed ''Payment failed'' (body req) payment w of
               (Inl e, w1) \<Rightarrow> (ServerError ''Webhook processing failed'', w1)
             | (Inr p1, w1) \<Rightarrow> (WebhookSuccess, w1))
          else (WebhookSuccess, w))"

record stripe_event =
  ev_type :: string
  ev_object :: json

text \<open>
  \<^verbatim>\<open>POST /webhook/stripe\<close>. \<open>constructEvent\<close> is \<^verbatim>\<open>stripe.webhooks.constructEvent\<close> with the
  configured secret: from the raw body and the \<^verbatim>\<open>stripe-signature\<close> header it returns the
  event or throws. The event handling is outside every \<^verbatim>\<open>try\<close>.
\<close>

definition stripe_webhook ::
  "(string \<Rightarrow> string option \<Rightarrow> stripe_event outcome) \<Rightarrow> string request \<Rightarrow> world \<Rightarrow> reply \<times> world" where
  "stripe_webhook constructEvent req w =
     (case constructEvent (body req) (map_of (headers req) ''stripe-signature'') of
        Threw e \<Rightarrow> (StripeSignatureError (''Webhook Error: '' @ e), w)
      | Returned event \<Rightarrow>
          if ev_type event = ''payment_intent.succeeded'' then
            (case Payment_findOne_paymentIntentId (map_of (ev_object event) ''id'') w of
               None \<Rightarrow> (StripeReceived, w)
             | Some payment \<Rightarrow>
                 (case markCompleted (ev_object event) payment w of
                    (Inl e, w1) \<Rightarrow> (Uncaught e, w1)
                  | (Inr p1, w1) \<Rightarrow>
                      (case update_order_paid (order p1) w1 of
                         (Inl e, w2) \<Rightarrow> (Uncaught e, w2)
                       | (Inr u, w2) \<Rightarrow> (StripeReceived, w2))))
          else if ev_type event = ''payment_intent.payment_failed'' then
            (case Payment_findOne_paymentIntentId (map_of (ev_object event) ''id'') w of
               None \<Rightarrow> (StripeReceived, w)
             | Some failedPaymentRecord \<Rightarrow>
                 (case markFailed ''Payment failed'' (ev_object event) failedPaymentRecord w of
                    (Inl e, w1) \<Rightarrow> (Uncaught e, w1)
                  | (Inr p1, w1) \<Rightarrow> (StripeReceived, w1)))
          else (StripeReceived, w))"

subsection \<open>Example data\<close>

text \<open>
  A stored Orange Money payment of user 3 for order 7, in processing; the order, already
  shipped; and a world whose clock reads 5000, 5001, ... .
\<close>

definition example_payment :: payment where
  "example_payment =
     \<lparr> p_id = 1, isNew = False, paymentId = Some ''PAY_1000_abc'',
       order = 7, user = 3, amount = 60000, currency = XOF, p_method = orange_money,
       status = processing,
       gateway_transactionId = Some ''abc123'', gateway_gatewayResponse = None,
       mobileMoneyDetails_phoneNumber = Some ''+33612345678'',
       mobileMoneyDetails_operator = Some orange,
       stripeDetails_paymentIntentId = None,
       attempts = [], completedAt = None, failedAt = None,
       expiresAt = 1801000, createdAt = Some 1000, updatedAt = Some 1000 \<rparr>"

definition example_order :: order_doc where
  "example_order =
     \<lparr> o_id = 7, buyer = 3, o_status = o_shipped, paymentStatus = ''pending'',
       timeline = [], o_updatedAt = None \<rparr>"

definition example_world :: "payment list \<Rightarrow> order_doc list \<Rightarrow> world" where
  "example_world ps os =
     \<lparr> payments = ps, orders = os, clock = (\<lambda>n. 5000 + n), reads = 0,
       random = (\<lambda>n. ''k3x9q0z1a''), draws = 0 \<rparr>"

text \<open>
  A stored card payment for the same order, and a signature check that accepts one
  signature; the event it returns takes its type from the raw body and is about the
  payment intent \<^verbatim>\<open>pi_1\<close>.
\<close>

definition example_card_payment :: payment where
  "example_card_payment =
     example_payment\<lparr> p_id := 2, paymentId := Some ''PAY_1001_def'', currency := USD,
       p_method := stripe, gateway_transactionId := None,
       mobileMoneyDetails_phoneNumber := None, mobileMoneyDetails_operator := None,
       stripeDetails_paymentIntentId := Some ''pi_1'' \<rparr>"

definition example_constructEvent :: "string \<Rightarrow> string option \<Rightarrow> stripe_event outcome" where
  "example_constructEvent raw sig =
     (if sig = Some ''t=1,v1=good''
      then Returned \<lparr> ev_type = raw, ev_object = [(''id'', ''pi_1'')] \<rparr>
      else Threw ''No signatures found matching the expected signature for payload'')"

definition example_payment_init :: payment_init where
  "example_payment_init =
     \<lparr> i_order = 7, i_user = 3, i_amount = 60000, i_currency = XOF, i_method = orange_money,
       i_phoneNumber = Some ''+33612345678'', i_operator = Some orange,
       i_paymentIntentId = None \<rparr>"

definition example_request :: "'b \<Rightarrow> 'b request" where
  "example_request b = \<lparr> headers = [], validation_errors = [], body = b \<rparr>"

definition example_initiate_body :: initiate_body where
  "example_initiate_body =
     \<lparr> b_amount = 60000, b_currency = USD, b_phoneNumber = ''+33612345678'', b_orderId = 7 \<rparr>"

subsection \<open>The store before and after a handler\<close>

text \<open>The identifiers of the stored payments, in the order of insertion.\<close>

definition payment_ids :: "world \<Rightarrow> objectId list" where
  "payment_ids w = map p_id (payments w)"

text \<open>No payment is failed in \<open>w'\<close> that was not stored, the same and failed, in \<open>w\<close>.\<close>

definition no_new_failed :: "world \<Rightarrow> world \<Rightarrow> bool" where
  "no_new_failed w w' = (\<forall>q\<in>set (payments w'). status q = failed \<longrightarrow> q \<in> set (payments w))"

section \<open>Stored documents\<close>

text \<open>Replacing the first match of a query by a document that matches keeps it the first match.\<close>

lemma find_replace:
  "find P xs = Some x \<Longrightarrow> k x = i \<Longrightarrow> P y \<Longrightarrow>
   find P (map (\<lambda>q. if k q = i then y else q) xs) = Some y"
  by (induction xs) (auto split: if_splits)

lemma find_Some_mem: "find P xs = Some x \<Longrightarrow> x \<in> set xs \<and> P x"
  by (induction xs) (auto split: if_splits)

text \<open>Saving a loaded document replaces the stored one and stamps \<^verbatim>\<open>updatedAt\<close>.\<close>

lemma save_payment_stored:
  assumes "\<not> isNew p" and "p_id p \<in> p_id ` set (payments w)"
  shows "save_payment p w =
     (Inr (p\<lparr>updatedAt := Some (clock w (reads w))\<rparr>),
      w\<lparr>payments := map (\<lambda>q. if p_id q = p_id p then p\<lparr>updatedAt := Some (clock w (reads w))\<rparr> else q) (payments w),
        reads := Suc (reads w)\<rparr>)"
  using assms by (simp add: save_payment_def stamp_payment_def pre_save_def Date_now_def)

lemma findOne_paymentId_stored:
  assumes "Payment_findOne_paymentId key w = Some p"
  shows "\<not> isNew p \<and> p_id p \<in> p_id ` set (payments w) \<and> paymentId p = key"
  using assms by (auto simp: Payment_findOne_paymentId_def loaded_def dest!: find_Some_mem)

lemma findOne_paymentId_replace:
  assumes "Payment_findOne_paymentId key w = Some p"
      and "paymentId p' = key" and "\<not> isNew p'"
  shows "Payment_findOne_paymentId key
           (w\<lparr>payments := map (\<lambda>q. if p_id q = p_id p then p' else q) (payments w), reads := n\<rparr>) = Some p'"
proof -
  from assms(1) obtain x where x: "find (\<lambda>q. paymentId q = key) (payments w) = Some x" and p: "p = loaded x"
    by (auto simp: Payment_findOne_paymentId_def)
  have "p_id x = p_id p" using p by (simp add: loaded_def)
  with x assms(2) have "find (\<lambda>q. paymentId q = key) (map (\<lambda>q. if p_id q = p_id p then p' else q) (payments w)) = Some p'"
    using find_replace [where k = p_id and i = "p_id p" and y = p' and P = "\<lambda>q. paymentId q = key", OF x] by simp
  moreover have "loaded p' = p'" using assms(3) by (simp add: loaded_def)
  ultimately show ?thesis by (simp add: Payment_findOne_paymentId_def)
qed

lemma findOne_paymentIntentId_stored:
  assumes "Payment_findOne_paymentIntentId key w = Some p"
  shows "\<not> isNew p \<and> p_id p \<in> p_id ` set (payments w) \<and> stripeDetails_paymentIntentId p = key"
  using assms by (auto simp: Payment_findOne_paymentIntentId_def loaded_def dest!: find_Some_mem)

lemma findOne_paymentIntentId_replace:
  assumes "Payment_findOne_paymentIntentId key w = Some p"
      and "stripeDetails_paymentIntentId p' = key" and "\<not> isNew p'"
  shows "Payment_findOne_paymentIntentId key
           (w\<lparr>payments := map (\<lambda>q. if p_id q = p_id p then p' else q) (payments w), reads := n\<rparr>) = Some p'"
proof -
  from assms(1) obtain x where x: "find (\<lambda>q. stripeDetails_paymentIntentId q = key) (payments w) = Some x"
    and p: "p = loaded x"
    by (auto simp: Payment_findOne_paymentIntentId_def)
  have "p_id x = p_id p" using p by (simp add: loaded_def)
  with x assms(2)
  have "find (\<lambda>q. stripeDetails_paymentIntentId q = key)
          (map (\<lambda>q. if p_id q = p_id p then p' else q) (payments w)) = Some p'"
    using find_replace [where k = p_id and i = "p_id p" and y = p'
        and P = "\<lambda>q. stripeDetails_paymentIntentId q = key", OF x] by simp
  moreover have "loaded p' = p'" using assms(3) by (simp add: loaded_def)
  ultimately show ?thesis by (simp add: Payment_findOne_paymentIntentId_def)
qed

text \<open>The instance methods on a loaded document, written out.\<close>

lemma markCompleted_stored:
  assumes "\<not> isNew p" and "p_id p \<in> p_id ` set (payments w)"
  shows "markCompleted r p w =
     (Inr (p\<lparr>status := completed, gateway_gatewayResponse := Some r, completedAt := Some (clock w (reads w)),
            updatedAt := Some (clock w (Suc (reads w)))\<rparr>),
      w\<lparr>payments := map (\<lambda>q. if p_id q = p_id p then
              p\<lparr>status := completed, gateway_gatewayResponse := Some r, completedAt := Some (clock w (reads w)),
                updatedAt := Some (clock w (Suc (reads w)))\<rparr> else q) (payments w),
        reads := Suc (Suc (reads w))\<rparr>)"
  using assms by (simp add: markCompleted_def Date_now_def save_payment_stored)

lemma markFailed_stored:
  assumes "\<not> isNew p" and "p_id p \<in> p_id ` set (payments w)"
  shows "markFailed m r p w =
     (Inr (p\<lparr>status := failed,
             attempts := attempts p @ [\<lparr>att_timestamp = clock w (Suc (reads w)), att_status = ''failed'',
                  att_errorMessage = m, att_gatewayResponse = r\<rparr>],
             failedAt := Some (clock w (reads w)),
             updatedAt := Some (clock w (Suc (Suc (reads w))))\<rparr>),
      w\<lparr>payments := map (\<lambda>q. if p_id q = p_id p then
              p\<lparr>status := failed,
             attempts := attempts p @ [\<lparr>att_timestamp = clock w (Suc (reads w)), att_status = ''failed'',
                  att_errorMessage = m, att_gatewayResponse = r\<rparr>],
             failedAt := Some (clock w (reads w)),
             updatedAt := Some (clock w (Suc (Suc (reads w))))\<rparr> else q) (payments w),
        reads := Suc (Suc (Suc (reads w)))\<rparr>)"
  using assms by (simp add: markFailed_def Date_now_def save_payment_stored)

section \<open>Order linkage\<close>

lemma Order_findById_id: "Order_findById i w = Some ord \<Longrightarrow> o_id ord = i"
  by (auto simp: Order_findById_def dest: find_Some_mem)

lemma Order_findById_frame [simp]:
  "Order_findById i (w\<lparr>payments := ps\<rparr>) = Order_findById i w"
  "Order_findById i (w\<lparr>reads := n\<rparr>) = Order_findById i w"
  "Order_findById i (w\<lparr>draws := d\<rparr>) = Order_findById i w"
  by (simp_all add: Order_findById_def)

lemma save_order_paid:
  "save_order (ord\<lparr>paymentStatus := ''paid'', o_status := st\<rparr>) w = (Inl paid_rejected, w)"
  by (simp add: save_order_def validate_order_def paymentStatus_enum_def validation_failed_def
        paid_rejected_def)

lemma update_order_paid_found:
  "Order_findById oid w = Some ord \<Longrightarrow> update_order_paid oid w = (Inl paid_rejected, w)"
  by (simp add: update_order_paid_def save_order_paid)

lemma update_order_paid_world [simp]: "snd (update_order_paid oid w) = w"
  by (cases "Order_findById oid w") (simp_all add: update_order_paid_def save_order_paid)

text \<open>The three paths that complete a payment, when its order exists.\<close>

lemma orange_webhook_success:
  assumes "Payment_findOne_paymentId (map_of (body req) ''reference'') w = Some p"
      and "map_of (body req) ''status'' = Some ''SUCCESS''"
      and "Order_findById (order p) w = Some ord"
  shows "\<exists>w' p'. orange_money_webhook req w = (ServerError ''Webhook processing failed'', w') \<and>
           Payment_findOne_paymentId (map_of (body req) ''reference'') w' = Some p' \<and>
           status p' = completed \<and> completedAt p' = Some (clock w (reads w)) \<and>
           orders w' = orders w"
proof -
  from findOne_paymentId_stored [OF assms(1)]
  have st: "\<not> isNew p" "p_id p \<in> p_id ` set (payments w)"
    and k: "paymentId p = map_of (body req) ''reference''" by auto
  let ?p' = "p\<lparr>status := completed, gateway_gatewayResponse := Some (body req),
                completedAt := Some (clock w (reads w)),
                updatedAt := Some (clock w (Suc (reads w)))\<rparr>"
  let ?w1 = "w\<lparr>payments := map (\<lambda>q. if p_id q = p_id p then ?p' else q) (payments w),
               reads := Suc (Suc (reads w))\<rparr>"
  have mc: "markCompleted (body req) p w = (Inr ?p', ?w1)" by (rule markCompleted_stored [OF st])
  have f1: "Payment_findOne_paymentId (map_of (body req) ''reference'') ?w1 = Some ?p'"
    by (rule findOne_paymentId_replace [OF assms(1)]) (simp_all add: k st)
  have "Order_findById (order p) ?w1 = Some ord" using assms(3) by simp
  then have u: "update_order_paid (order p) ?w1 = (Inl paid_rejected, ?w1)"
    by (rule update_order_paid_found)
  have "orange_money_webhook req w = (ServerError ''Webhook processing failed'', ?w1)"
    by (simp add: orange_money_webhook_def assms(1,2) mc u)
  with f1 show ?thesis by simp
qed

lemma status_route_completes:
  assumes "Payment_findOne_paymentId (Some pid) w = Some p"
      and "user p = uid"
      and "check_gateway p token_post api_call = Returned (Some gs)"
      and "isCompleted gs" and "status p \<noteq> completed"
      and "Order_findById (order p) w = Some ord"
  shows "payment_status_route uid pid token_post api_call w =
           (ServerError ''Failed to check payment status'', w\<lparr>reads := Suc (reads w)\<rparr>)"
proof -
  have "Order_findById (order p) (w\<lparr>reads := Suc (reads w)\<rparr>) = Some ord" using assms(6) by simp
  then have u: "update_order_paid (order p) (w\<lparr>reads := Suc (reads w)\<rparr>)
                  = (Inl paid_rejected, w\<lparr>reads := Suc (reads w)\<rparr>)"
    by (rule update_order_paid_found)
  show ?thesis
    using assms(2-5) by (simp add: payment_status_route_def assms(1) Date_now_def u)
qed

lemma stripe_webhook_success:
  assumes "constructEvent (body req) (map_of (headers req) ''stripe-signature'') = Returned ev"
      and "ev_type ev = ''payment_intent.succeeded''"
      and "Payment_findOne_paymentIntentId (map_of (ev_object ev) ''id'') w = Some p"
      and "Order_findById (order p) w = Some ord"
  shows "\<exists>w' p'. stripe_webhook constructEvent req w = (Uncaught paid_rejected, w') \<and>
           Payment_findOne_paymentIntentId (map_of (ev_object ev) ''id'') w' = Some p' \<and>
           status p' = completed \<and> orders w' = orders w"
proof -
  from findOne_paymentIntentId_stored [OF assms(3)]
  have st: "\<not> isNew p" "p_id p \<in> p_id ` set (payments w)"
    and k: "stripeDetails_paymentIntentId p = map_of (ev_object ev) ''id''" by auto
  let ?p' = "p\<lparr>status := completed, gateway_gatewayResponse := Some (ev_object ev),
                completedAt := Some (clock w (reads w)),
                updatedAt := Some (clock w (Suc (reads w)))\<rparr>"
  let ?w1 = "w\<lparr>payments := map (\<lambda>q. if p_id q = p_id p then ?p' else q) (payments w),
               reads := Suc (Suc (reads w))\<rparr>"
  have mc: "markCompleted (ev_object ev) p w = (Inr ?p', ?w1)" by (rule markCompleted_stored [OF st])
  have f1: "Payment_findOne_paymentIntentId (map_of (ev_object ev) ''id'') ?w1 = Some ?p'"
    by (rule findOne_paymentIntentId_replace [OF assms(3)]) (simp_all add: k st)
  have "Order_findById (order p) ?w1 = Some ord" using assms(4) by simp
  then have u: "update_order_paid (order p) ?w1 = (Inl paid_rejected, ?w1)"
    by (rule update_order_paid_found)
  have "stripe_webhook constructEvent req w = (Uncaught paid_rejected, ?w1)"
    by (simp add: stripe_webhook_def assms(1,2,3) mc u)
  with f1 show ?thesis by simp
qed

section \<open>Creating a payment\<close>

text \<open>
  The documents the routes construct have no \<^verbatim>\<open>paymentId\<close>: their first save is rejected
  by the validation, before the hook that generates the reference, and stores nothing.
\<close>

lemma new_Payment_rejected:
  "isNew (fst (new_Payment i w))" "validate_payment (fst (new_Payment i w)) \<noteq> []"
  "snd (new_Payment i w) = w\<lparr>reads := Suc (reads w)\<rparr>"
  by (simp_all add: new_Payment_def Date_now_def validate_payment_def falsy_def)

lemma create_payment_rejected:
  "create_payment i w =
     (Inl (validation_failed ''Payment'' (validate_payment (fst (new_Payment i w)))),
      w\<lparr>reads := Suc (reads w)\<rparr>)"
  by (simp add: create_payment_def case_prod_beta save_payment_def new_Payment_rejected)

lemma validation_message_amount:
  "0 \<le> i_amount i \<Longrightarrow>
   validation_failed ''Payment'' (validate_payment (fst (new_Payment i w)))
     = ''Payment validation failed: paymentId: Payment ID is required''"
  by (simp add: validation_failed_def validate_payment_def new_Payment_def Date_now_def falsy_def)

lemma validation_message_nonempty:
  "validation_failed model errors \<noteq> []"
  by (simp add: validation_failed_def)

lemma save_new_Payment:
  "save_payment (fst (new_Payment i w)) w' =
     (Inl (validation_failed ''Payment'' (validate_payment (fst (new_Payment i w)))), w')"
  by (simp add: save_payment_def new_Payment_rejected)

lemma stripe_create_intent_world:
  "payments (snd (stripe_create_intent uid req create_call w)) = payments w \<and>
   orders (snd (stripe_create_intent uid req create_call w)) = orders w \<and>
   http_status (fst (stripe_create_intent uid req create_call w)) \<noteq> 200"
  by (simp add: stripe_create_intent_def case_prod_beta save_new_Payment new_Payment_rejected
        split: option.splits outcome.splits)

lemma orange_money_initiate_world:
  "payments (snd (orange_money_initiate uid req token_post api_call w)) = payments w \<and>
   orders (snd (orange_money_initiate uid req token_post api_call w)) = orders w \<and>
   http_status (fst (orange_money_initiate uid req token_post api_call w)) \<noteq> 200"
  by (simp add: orange_money_initiate_def case_prod_beta save_new_Payment new_Payment_rejected
        split: option.splits outcome.splits)

lemma mtn_money_initiate_world:
  "payments (snd (mtn_money_initiate uid req token_post api_call w)) = payments w \<and>
   orders (snd (mtn_money_initiate uid req token_post api_call w)) = orders w \<and>
   http_status (fst (mtn_money_initiate uid req token_post api_call w)) \<noteq> 200"
  by (simp add: mtn_money_initiate_def case_prod_beta save_new_Payment new_Payment_rejected
        split: option.splits outcome.splits)

lemma orange_money_initiate_owned:
  assumes "validation_errors req = []"
      and "Order_findById (b_orderId (body req)) w = Some ord" and "buyer ord = uid"
  shows "\<exists>m. fst (orange_money_initiate uid req token_post api_call w) = ServerError m"
  using assms
  by (simp add: orange_money_initiate_def case_prod_beta save_new_Payment)

lemma mtn_money_initiate_owned:
  assumes "validation_errors req = []"
      and "Order_findById (b_orderId (body req)) w = Some ord" and "buyer ord = uid"
  shows "\<exists>m. fst (mtn_money_initiate uid req token_post api_call w) = ServerError m"
  using assms
  by (simp add: mtn_money_initiate_def case_prod_beta save_new_Payment)


lemma save_payment_orders [simp]: "orders (snd (save_payment p w)) = orders w"
  by (simp add: save_payment_def stamp_payment_def pre_save_def Date_now_def
        Math_random_suffix_def Let_def)

lemma MTNMoneyAPI_requestPayment_frame [simp]:
  "payments (snd (MTNMoneyAPI_requestPayment token_post api_call w)) = payments w"
  "orders (snd (MTNMoneyAPI_requestPayment token_post api_call w)) = orders w"
  by (simp_all add: MTNMoneyAPI_requestPayment_def Date_now_def Math_random_suffix_def Let_def
        split: outcome.splits)

section \<open>What a handler leaves in the store\<close>

text \<open>No handler removes a stored payment.\<close>

lemma payment_ids_frame [simp]:
  "payment_ids (w\<lparr>reads := n\<rparr>) = payment_ids w"
  "payment_ids (w\<lparr>draws := d\<rparr>) = payment_ids w"
  "payment_ids (w\<lparr>orders := os\<rparr>) = payment_ids w"
  by (simp_all add: payment_ids_def)

lemma map_p_id_replace:
  "p_id y = i \<Longrightarrow> map (p_id \<circ> (\<lambda>q. if p_id q = i then y else q)) xs = map p_id xs"
  by (induction xs) auto

lemma save_payment_ids:
  "prefix ids (payment_ids w) \<Longrightarrow> prefix ids (payment_ids (snd (save_payment p w)))"
  by (auto simp: save_payment_def stamp_payment_def pre_save_def Date_now_def
        Math_random_suffix_def Let_def payment_ids_def map_p_id_replace
        intro: prefix_order.trans)

lemma update_order_paid_payments [simp]: "payments (snd (update_order_paid oid w)) = payments w"
  by simp

lemma update_order_paid_ids [simp]: "payment_ids (snd (update_order_paid oid w)) = payment_ids w"
  by (simp add: payment_ids_def)

lemma markCompleted_ids:
  "prefix ids (payment_ids w) \<Longrightarrow> prefix ids (payment_ids (snd (markCompleted r p w)))"
  by (simp add: markCompleted_def Date_now_def save_payment_ids)

lemma markFailed_ids:
  "prefix ids (payment_ids w) \<Longrightarrow> prefix ids (payment_ids (snd (markFailed m r p w)))"
  by (simp add: markFailed_def Date_now_def save_payment_ids)

lemma MTNMoneyAPI_requestPayment_ids [simp]:
  "payment_ids (snd (MTNMoneyAPI_requestPayment token_post api_call w)) = payment_ids w"
  by (simp add: payment_ids_def)

lemmas ids_rules = save_payment_ids markCompleted_ids markFailed_ids

lemma orange_money_initiate_ids:
  "prefix (payment_ids w) (payment_ids (snd (orange_money_initiate uid req token_post api_call w)))"
  by (simp add: orange_money_initiate_def new_Payment_def Date_now_def case_prod_beta ids_rules
        split: option.splits sum.splits outcome.splits)

lemma mtn_money_initiate_ids:
  "prefix (payment_ids w) (payment_ids (snd (mtn_money_initiate uid req token_post api_call w)))"
  by (simp add: mtn_money_initiate_def new_Payment_def Date_now_def case_prod_beta ids_rules
        split: option.splits sum.splits outcome.splits)

lemma stripe_create_intent_ids:
  "prefix (payment_ids w) (payment_ids (snd (stripe_create_intent uid req create_call w)))"
  by (simp add: stripe_create_intent_def new_Payment_def Date_now_def case_prod_beta ids_rules
        split: option.splits sum.splits outcome.splits)

lemma payment_status_route_ids:
  "prefix (payment_ids w) (payment_ids (snd (payment_status_route uid pid token_post api_call w)))"
  by (simp add: payment_status_route_def Date_now_def case_prod_beta Let_def ids_rules
        split: option.splits sum.splits outcome.splits)

lemma orange_money_webhook_ids:
  "prefix (payment_ids w) (payment_ids (snd (orange_money_webhook req w)))"
  by (simp add: orange_money_webhook_def case_prod_beta ids_rules
        split: option.splits sum.splits outcome.splits)

lemma stripe_webhook_ids:
  "prefix (payment_ids w) (payment_ids (snd (stripe_webhook constructEvent req w)))"
  by (simp add: stripe_webhook_def case_prod_beta ids_rules
        split: option.splits sum.splits outcome.splits)

text \<open>Only \<^verbatim>\<open>markFailed\<close> stores a failed payment.\<close>

lemma no_new_failed_refl [simp]: "no_new_failed w w"
  by (simp add: no_new_failed_def)

lemma no_new_failed_frame [simp]:
  "no_new_failed w0 (w\<lparr>reads := n\<rparr>) = no_new_failed w0 w"
  "no_new_failed w0 (w\<lparr>draws := d\<rparr>) = no_new_failed w0 w"
  by (simp_all add: no_new_failed_def)

lemma no_new_failed_payments:
  "payments w' = payments w \<Longrightarrow> no_new_failed w0 w' = no_new_failed w0 w"
  by (simp add: no_new_failed_def)

lemma save_payment_not_failed:
  "status p \<noteq> failed \<Longrightarrow> no_new_failed w0 w \<Longrightarrow> no_new_failed w0 (snd (save_payment p w))"
  by (auto simp: save_payment_def stamp_payment_def pre_save_def Date_now_def
        Math_random_suffix_def Let_def no_new_failed_def split: if_splits)

lemma markCompleted_not_failed:
  "no_new_failed w0 w \<Longrightarrow> no_new_failed w0 (snd (markCompleted r p w))"
  by (simp add: markCompleted_def Date_now_def save_payment_not_failed)

lemma update_order_paid_not_failed [simp]:
  "no_new_failed w0 (snd (update_order_paid oid w)) = no_new_failed w0 w"
  by (rule no_new_failed_payments) simp

lemma MTNMoneyAPI_requestPayment_not_failed [simp]:
  "no_new_failed w0 (snd (MTNMoneyAPI_requestPayment token_post api_call w)) = no_new_failed w0 w"
  by (rule no_new_failed_payments) simp

lemmas not_failed_rules = save_payment_not_failed markCompleted_not_failed

lemma orange_money_initiate_not_failed:
  "no_new_failed w (snd (orange_money_initiate uid req token_post api_call w))"
  by (simp add: orange_money_initiate_def new_Payment_def Date_now_def case_prod_beta
        not_failed_rules split: option.splits sum.splits outcome.splits)

lemma mtn_money_initiate_not_failed:
  "no_new_failed w (snd (mtn_money_initiate uid req token_post api_call w))"
  by (simp add: mtn_money_initiate_def new_Payment_def Date_now_def case_prod_beta
        not_failed_rules split: option.splits sum.splits outcome.splits)

lemma stripe_create_intent_not_failed:
  "no_new_failed w (snd (stripe_create_intent uid req create_call w))"
  by (simp add: stripe_create_intent_def new_Payment_def Date_now_def case_prod_beta
        not_failed_rules split: option.splits sum.splits outcome.splits)

lemma payment_status_route_not_failed:
  "no_new_failed w (snd (payment_status_route uid pid token_post api_call w))"
  by (simp add: payment_status_route_def Date_now_def case_prod_beta Let_def
        not_failed_rules split: option.splits sum.splits outcome.splits)

lemma orange_money_webhook_not_failed:
  "map_of (body req) ''status'' \<noteq> Some ''FAILED'' \<Longrightarrow>
   no_new_failed w (snd (orange_money_webhook req w))"
  by (simp add: orange_money_webhook_def case_prod_beta
        not_failed_rules split: option.splits sum.splits outcome.splits)

lemma stripe_webhook_not_failed:
  "\<forall>ev. constructEvent (body req) (map_of (headers req) ''stripe-signature'') = Returned ev
        \<longrightarrow> ev_type ev \<noteq> ''payment_intent.payment_failed'' \<Longrightarrow>
   no_new_failed w (snd (stripe_webhook constructEvent req w))"
  by (simp add: stripe_webhook_def case_prod_beta
        not_failed_rules split: option.splits sum.splits outcome.splits)

lemma payment_status_route_gateway_threw:
  "Payment_findOne_paymentId (Some pid) w = Some p \<Longrightarrow>
   check_gateway p token_post api_call = Threw e \<Longrightarrow>
   payment_status_route uid pid token_post api_call w =
     (if user p = uid then ServerError ''Failed to check payment status''
      else NotFound ''Payment not found'', w)"
  by (simp add: payment_status_route_def)

text \<open>A failure the provider reports is stored.\<close>

lemma orange_webhook_failed:
  assumes "Payment_findOne_paymentId (map_of (body req) ''reference'') w = Some p"
      and "map_of (body req) ''status'' = Some ''FAILED''"
  shows "\<exists>w' p'. orange_money_webhook req w = (WebhookSuccess, w') \<and>
           Payment_findOne_paymentId (map_of (body req) ''reference'') w' = Some p' \<and>
           status p' = failed"
proof -
  from findOne_paymentId_stored [OF assms(1)]
  have st: "\<not> isNew p" "p_id p \<in> p_id ` set (payments w)"
    and k: "paymentId p = map_of (body req) ''reference''" by auto
  show ?thesis
    by (simp add: orange_money_webhook_def assms markFailed_stored [OF st]
          findOne_paymentId_replace [OF assms(1)] k st)
qed

lemma stripe_webhook_failed:
  assumes "constructEvent (body req) (map_of (headers req) ''stripe-signature'') = Returned ev"
      and "ev_type ev = ''payment_intent.payment_failed''"
      and "Payment_findOne_paymentIntentId (map_of (ev_object ev) ''id'') w = Some p"
  shows "\<exists>w' p'. stripe_webhook constructEvent req w = (StripeReceived, w') \<and>
           Payment_findOne_paymentIntentId (map_of (ev_object ev) ''id'') w' = Some p' \<and>
           status p' = failed"
proof -
  from findOne_paymentIntentId_stored [OF assms(3)]
  have st: "\<not> isNew p" "p_id p \<in> p_id ` set (payments w)"
    and k: "stripeDetails_paymentIntentId p = map_of (ev_object ev) ''id''" by auto
  show ?thesis
    by (simp add: stripe_webhook_def assms markFailed_stored [OF st]
          findOne_paymentIntentId_replace [OF assms(3)] k st)
qed

section \<open>Terminal transitions of the ledger\<close>

text \<open>
  C1, as stated: once a Payment is completed or failed, a later contradictory
  \<^verbatim>\<open>markCompleted\<close> or \<^verbatim>\<open>markFailed\<close> never changes the stored status. It fails: on the
  stored failed payment \<^verbatim>\<open>markCompleted\<close> stores \<^verbatim>\<open>completed\<close>, and a late webhook
  \<^verbatim>\<open>FAILED\<close> turns the stored completed payment into \<^verbatim>\<open>failed\<close>.
\<close>

theorem first_terminal_wins_counterexample:
  "map status (payments (snd (markCompleted []
      (example_payment\<lparr>status := failed, failedAt := Some 2000\<rparr>)
      (example_world [example_payment\<lparr>status := failed, failedAt := Some 2000\<rparr>] [example_order]))))
     = [completed] \<and>
   map status (payments (snd (orange_money_webhook
      (example_request [(''reference'', ''PAY_1000_abc''), (''status'', ''FAILED'')])
      (example_world [example_payment\<lparr>status := completed, completedAt := Some 2000\<rparr>] [example_order]))))
     = [failed]"
  by (simp add: markCompleted_def markFailed_def orange_money_webhook_def save_payment_def
        stamp_payment_def pre_save_def Date_now_def Payment_findOne_paymentId_def loaded_def
        example_world_def example_payment_def example_request_def)

text \<open>
  C1, amended: \<^verbatim>\<open>markCompleted\<close> and \<^verbatim>\<open>markFailed\<close> read no status. On every Payment
  loaded from the store, whatever its status, \<^verbatim>\<open>markCompleted\<close> is accepted and stores
  \<^verbatim>\<open>completed\<close> without touching the attempts log, and \<^verbatim>\<open>markFailed\<close> is accepted, stores
  \<^verbatim>\<open>failed\<close> and appends one \<^verbatim>\<open>failed\<close> entry to the attempts log: the last terminal write
  wins.
\<close>

theorem last_terminal_write_wins:
  assumes "Payment_findOne_paymentId key w = Some p"
  shows "(\<exists>p' w'. markCompleted r p w = (Inr p', w') \<and> status p' = completed \<and>
             attempts p' = attempts p \<and> Payment_findOne_paymentId key w' = Some p') \<and>
         (\<exists>p' w'. markFailed m r p w = (Inr p', w') \<and> status p' = failed \<and>
             attempts p' = attempts p @
               [\<lparr>att_timestamp = clock w (Suc (reads w)), att_status = ''failed'',
                 att_errorMessage = m, att_gatewayResponse = r\<rparr>] \<and>
             Payment_findOne_paymentId key w' = Some p')"
proof -
  from findOne_paymentId_stored [OF assms]
  have st: "\<not> isNew p" "p_id p \<in> p_id ` set (payments w)" and k: "paymentId p = key" by auto
  show ?thesis
    by (simp add: markCompleted_stored [OF st] markFailed_stored [OF st]
          findOne_paymentId_replace [OF assms] k st)
qed

text \<open>
  C1, the amended claim at the stored failed payment: \<^verbatim>\<open>markCompleted\<close> is accepted and
  the payment is completed.
\<close>

theorem last_terminal_write_wins_witness:
  "Payment_findOne_paymentId (Some ''PAY_1000_abc'')
     (example_world [example_payment\<lparr>status := failed, failedAt := Some 2000\<rparr>] [example_order])
     = Some (example_payment\<lparr>status := failed, failedAt := Some 2000\<rparr>) \<and>
   (\<exists>p' w'. markCompleted [] (example_payment\<lparr>status := failed, failedAt := Some 2000\<rparr>)
        (example_world [example_payment\<lparr>status := failed, failedAt := Some 2000\<rparr>] [example_order]) = (Inr p', w') \<and>
      status p' = completed \<and>
      Payment_findOne_paymentId (Some ''PAY_1000_abc'') w' = Some p')"
proof -
  have h: "Payment_findOne_paymentId (Some ''PAY_1000_abc'')
     (example_world [example_payment\<lparr>status := failed, failedAt := Some 2000\<rparr>] [example_order])
     = Some (example_payment\<lparr>status := failed, failedAt := Some 2000\<rparr>)"
    by (simp add: Payment_findOne_paymentId_def example_world_def example_payment_def loaded_def)
  from last_terminal_write_wins [OF h, of "[]" "[]"] h show ?thesis by blast
qed

text \<open>
  C7: \<^verbatim>\<open>markCompleted\<close> on an already completed Payment keeps \<^verbatim>\<open>completedAt\<close>. The code at
  the failing input: the payment was completed at 2000; the Orange Money webhook
  delivers \<^verbatim>\<open>SUCCESS\<close> again when the clock reads 5000, and \<^verbatim>\<open>markCompleted\<close> stores
  \<^verbatim>\<open>completedAt\<close> = 5000. The status route, on the same payment and a gateway that
  reports success, leaves 2000: its guard \<^verbatim>\<open>payment.status !== 'completed'\<close> skips the
  write.
\<close>

theorem markCompleted_again_advances_completedAt:
  "map completedAt (payments (snd (orange_money_webhook
      (example_request [(''reference'', ''PAY_1000_abc''), (''status'', ''SUCCESS'')])
      (example_world [example_payment\<lparr>status := completed, completedAt := Some 2000\<rparr>] [example_order]))))
     = [Some 5000] \<and>
   map completedAt (payments (snd (payment_status_route 3 ''PAY_1000_abc''
      (Returned []) (Returned [(''status'', ''SUCCESSFUL'')])
      (example_world [example_payment\<lparr>status := completed, completedAt := Some 2000\<rparr>] [example_order]))))
     = [Some 2000]"
  by (simp add: markCompleted_def orange_money_webhook_def payment_status_route_def
        check_gateway_def OrangeMoneyAPI_checkPaymentStatus_def OrangeMoneyAPI_getAccessToken_def
        isCompleted_def falsy_def update_order_paid_def save_order_def Order_findById_def
        validate_order_def paymentStatus_enum_def
        save_payment_def stamp_payment_def pre_save_def Date_now_def
        Payment_findOne_paymentId_def loaded_def view_def
        example_world_def example_payment_def example_order_def example_request_def)

section \<open>Expiry purge and unknown webhook references\<close>

text \<open>
  C5, as stated: a Payment whose status is terminal is never physically deleted; the
  expiry purge takes only records without a terminal status. It fails: the TTL index
  reads \<^verbatim>\<open>expiresAt\<close> alone, and the sweep at time 2000000 removes the completed payment
  that expired at 1801000.
\<close>

theorem terminal_payment_purged_counterexample:
  "status (example_payment\<lparr>status := completed, completedAt := Some 2000\<rparr>) = completed \<and>
   ttl_expired 2000000 (example_payment\<lparr>status := completed, completedAt := Some 2000\<rparr>) \<and>
   payments (ttl_sweep 2000000
      (example_world [example_payment\<lparr>status := completed, completedAt := Some 2000\<rparr>]
         [example_order])) = []"
  by (simp add: ttl_sweep_def ttl_expired_def expireAfterSeconds_def example_world_def
        example_payment_def)

text \<open>
  C5, amended: no route handler removes a stored Payment; the TTL index on
  \<^verbatim>\<open>expiresAt\<close> makes a Payment eligible for deletion exactly when its \<^verbatim>\<open>expiresAt\<close> has
  passed, whatever its status, terminal or not, and the sweep keeps the others.
\<close>

theorem ttl_purge_reads_expiry_only:
  "prefix (payment_ids w) (payment_ids (snd (stripe_create_intent uid req create_call w))) \<and>
   prefix (payment_ids w) (payment_ids (snd (orange_money_initiate uid req token_post api_call w))) \<and>
   prefix (payment_ids w) (payment_ids (snd (mtn_money_initiate uid req token_post api_call w))) \<and>
   prefix (payment_ids w) (payment_ids (snd (payment_status_route uid pid token_post api_call w))) \<and>
   prefix (payment_ids w) (payment_ids (snd (orange_money_webhook hook w))) \<and>
   prefix (payment_ids w) (payment_ids (snd (stripe_webhook constructEvent sreq w))) \<and>
   ttl_expired now (p\<lparr>status := s\<rparr>) = (expiresAt p < now) \<and>
   payments (ttl_sweep now w) = filter (\<lambda>q. now \<le> expiresAt q) (payments w)"
proof -
  have "payments (ttl_sweep now w) = filter (\<lambda>q. now \<le> expiresAt q) (payments w)"
    by (simp add: ttl_sweep_def ttl_expired_def expireAfterSeconds_def not_less)
  moreover have "ttl_expired now (p\<lparr>status := s\<rparr>) = (expiresAt p < now)"
    by (simp add: ttl_expired_def expireAfterSeconds_def)
  ultimately show ?thesis
    by (simp add: stripe_create_intent_ids orange_money_initiate_ids mtn_money_initiate_ids
          payment_status_route_ids orange_money_webhook_ids stripe_webhook_ids)
qed

text \<open>
  C8, as stated: a webhook whose reference matches no stored Payment is answered as a
  success. It fails on the Orange Money webhook: the reference is unknown and the reply
  is 404 \<^verbatim>\<open>Payment not found\<close>.
\<close>

theorem unknown_reference_success_counterexample:
  "Payment_findOne_paymentId (Some ''PAY_9_unknown'')
      (example_world [example_payment] [example_order]) = None \<and>
   fst (orange_money_webhook
      (example_request [(''reference'', ''PAY_9_unknown''), (''status'', ''SUCCESS'')])
      (example_world [example_payment] [example_order])) = NotFound ''Payment not found'' \<and>
   http_status (fst (orange_money_webhook
      (example_request [(''reference'', ''PAY_9_unknown''), (''status'', ''SUCCESS'')])
      (example_world [example_payment] [example_order]))) = 404"
  by (simp add: orange_money_webhook_def Payment_findOne_paymentId_def example_world_def
        example_payment_def example_request_def)

text \<open>
  C8, amended: a webhook whose reference matches no stored Payment changes no Payment
  and no Order. The Stripe handler answers it as a success (200, \<^verbatim>\<open>received\<close>) once the
  signature is verified; the Orange Money handler answers 404 \<^verbatim>\<open>Payment not found\<close>.
\<close>

theorem unknown_reference_changes_nothing:
  "(Payment_findOne_paymentId (map_of (body hook) ''reference'') w = None \<longrightarrow>
      orange_money_webhook hook w = (NotFound ''Payment not found'', w)) \<and>
   (constructEvent (body sreq) (map_of (headers sreq) ''stripe-signature'') = Returned ev \<and>
    Payment_findOne_paymentIntentId (map_of (ev_object ev) ''id'') w = None \<longrightarrow>
      stripe_webhook constructEvent sreq w = (StripeReceived, w))"
  by (simp add: orange_money_webhook_def stripe_webhook_def)

text \<open>
  C8, the amended claim at the example: an unknown reference on the Orange Money
  webhook, an unknown payment intent on the Stripe webhook.
\<close>

theorem unknown_reference_changes_nothing_witness:
  "orange_money_webhook
      (example_request [(''reference'', ''PAY_9_unknown''), (''status'', ''SUCCESS'')])
      (example_world [example_payment] [example_order])
     = (NotFound ''Payment not found'', example_world [example_payment] [example_order]) \<and>
   stripe_webhook example_constructEvent
      \<lparr>headers = [(''stripe-signature'', ''t=1,v1=good'')], validation_errors = [],
       body = ''payment_intent.succeeded''\<rparr>
      (example_world [example_payment] [example_order])
     = (StripeReceived, example_world [example_payment] [example_order]) \<and>
   http_status StripeReceived = 200"
proof -
  let ?w = "example_world [example_payment] [example_order]"
  let ?hook = "example_request [(''reference'', ''PAY_9_unknown''), (''status'', ''SUCCESS'')]"
  let ?sreq = "\<lparr>headers = [(''stripe-signature'', ''t=1,v1=good'')], validation_errors = [],
       body = ''payment_intent.succeeded''\<rparr>"
  let ?ev = "\<lparr>ev_type = ''payment_intent.succeeded'', ev_object = [(''id'', ''pi_1'')]\<rparr>"
  have f: "Payment_findOne_paymentId (map_of (body ?hook) ''reference'') ?w = None"
    by (simp add: Payment_findOne_paymentId_def example_world_def example_payment_def
          example_request_def)
  have e: "example_constructEvent (body ?sreq) (map_of (headers ?sreq) ''stripe-signature'') = Returned ?ev"
    by (simp add: example_constructEvent_def)
  have g: "Payment_findOne_paymentIntentId (map_of (ev_object ?ev) ''id'') ?w = None"
    by (simp add: Payment_findOne_paymentIntentId_def example_world_def example_payment_def)
  from unknown_reference_changes_nothing [where hook = ?hook and w = ?w, THEN conjunct1, rule_format, OF f]
    unknown_reference_changes_nothing [where sreq = ?sreq and w = ?w and ev = ?ev
      and constructEvent = example_constructEvent, THEN conjunct2, rule_format, OF conjI [OF e g]]
  show ?thesis by simp
qed

section \<open>Order linkage on completion\<close>

text \<open>
  C2: completing the Payment of an Order sets the Order's \<^verbatim>\<open>paymentStatus\<close> to \<^verbatim>\<open>paid\<close>.
  The code at the failing input, the shipped example order with \<^verbatim>\<open>paymentStatus\<close>
  \<^verbatim>\<open>pending\<close>: on each of the three paths \<^verbatim>\<open>order.save()\<close> is rejected, because \<^verbatim>\<open>paid\<close>
  is not a value of the enum of \<^verbatim>\<open>paymentStatus\<close>, and the stored order stays as it was.
  The Orange Money webhook answers 500 after it has stored the payment as completed; the
  status route answers 500 and has not saved the payment; the Stripe webhook leaves the
  error uncaught after it has stored the payment as completed.
\<close>

theorem order_save_rejects_paid:
  "o_status example_order = o_shipped \<and> paymentStatus example_order = ''pending'' \<and>
   fst (orange_money_webhook
          (example_request [(''reference'', ''PAY_1000_abc''), (''status'', ''SUCCESS'')])
          (example_world [example_payment, example_card_payment] [example_order]))
     = ServerError ''Webhook processing failed'' \<and>
   orders (snd (orange_money_webhook
          (example_request [(''reference'', ''PAY_1000_abc''), (''status'', ''SUCCESS'')])
          (example_world [example_payment, example_card_payment] [example_order])))
     = [example_order] \<and>
   map status (payments (snd (orange_money_webhook
          (example_request [(''reference'', ''PAY_1000_abc''), (''status'', ''SUCCESS'')])
          (example_world [example_payment, example_card_payment] [example_order]))))
     = [completed, processing] \<and>
   fst (payment_status_route 3 ''PAY_1000_abc''
          (Returned []) (Returned [(''status'', ''SUCCESSFUL'')])
          (example_world [example_payment, example_card_payment] [example_order]))
     = ServerError ''Failed to check payment status'' \<and>
   orders (snd (payment_status_route 3 ''PAY_1000_abc''
          (Returned []) (Returned [(''status'', ''SUCCESSFUL'')])
          (example_world [example_payment, example_card_payment] [example_order])))
     = [example_order] \<and>
   map status (payments (snd (payment_status_route 3 ''PAY_1000_abc''
          (Returned []) (Returned [(''status'', ''SUCCESSFUL'')])
          (example_world [example_payment, example_card_payment] [example_order]))))
     = [processing, processing] \<and>
   fst (stripe_webhook example_constructEvent
          \<lparr>headers = [(''stripe-signature'', ''t=1,v1=good'')], validation_errors = [],
           body = ''payment_intent.succeeded''\<rparr>
          (example_world [example_payment, example_card_payment] [example_order]))
     = Uncaught
         ''Order validation failed: paymentStatus: `paid` is not a valid enum value for path `paymentStatus`.'' \<and>
   orders (snd (stripe_webhook example_constructEvent
          \<lparr>headers = [(''stripe-signature'', ''t=1,v1=good'')], validation_errors = [],
           body = ''payment_intent.succeeded''\<rparr>
          (example_world [example_payment, example_card_payment] [example_order])))
     = [example_order] \<and>
   map status (payments (snd (stripe_webhook example_constructEvent
          \<lparr>headers = [(''stripe-signature'', ''t=1,v1=good'')], validation_errors = [],
           body = ''payment_intent.succeeded''\<rparr>
          (example_world [example_payment, example_card_payment] [example_order]))))
     = [processing, completed]"
  by (simp add: markCompleted_def orange_money_webhook_def payment_status_route_def
        stripe_webhook_def example_constructEvent_def
        check_gateway_def OrangeMoneyAPI_checkPaymentStatus_def OrangeMoneyAPI_getAccessToken_def
        isCompleted_def falsy_def update_order_paid_def save_order_def Order_findById_def
        validate_order_def paymentStatus_enum_def validation_failed_def
        save_payment_def stamp_payment_def pre_save_def Date_now_def
        Payment_findOne_paymentId_def Payment_findOne_paymentIntentId_def loaded_def view_def
        example_world_def example_payment_def example_card_payment_def example_order_def
        example_request_def)

section \<open>The Orange Money webhook\<close>

text \<open>The handler reads \<^verbatim>\<open>req.body\<close> and nothing else of the request.\<close>

lemma orange_money_webhook_body:
  assumes same: "body req' = body req"
  shows "orange_money_webhook req' w = orange_money_webhook req w"
  unfolding orange_money_webhook_def same by (rule refl)

text \<open>
  C10: the Orange Money webhook handler reads the body of the request alone and verifies
  no signature; a body whose \<^verbatim>\<open>reference\<close> matches a stored Payment and whose \<^verbatim>\<open>status\<close>
  is \<^verbatim>\<open>SUCCESS\<close> completes that Payment and marks its Order paid and confirmed. The code
  at the failing input: a request with a forged \<^verbatim>\<open>authorization\<close> header and one without
  headers, both with the body \<^verbatim>\<open>{reference: 'PAY_1000_abc', status: 'SUCCESS'}\<close>, have the
  same effect, and the payment is stored as completed; but \<^verbatim>\<open>order.save()\<close> is rejected
  (\<^verbatim>\<open>paid\<close> is not in the enum), the reply is 500 and the order stays as it was. The
  Stripe handler rejects a request without signature and changes nothing.
\<close>

theorem orange_webhook_completes_payment_not_order:
  "orange_money_webhook
      \<lparr>headers = [(''authorization'', ''Bearer forged'')], validation_errors = [],
       body = [(''reference'', ''PAY_1000_abc''), (''status'', ''SUCCESS'')]\<rparr>
      (example_world [example_payment] [example_order])
     = orange_money_webhook
         (example_request [(''reference'', ''PAY_1000_abc''), (''status'', ''SUCCESS'')])
         (example_world [example_payment] [example_order]) \<and>
   fst (orange_money_webhook
         (example_request [(''reference'', ''PAY_1000_abc''), (''status'', ''SUCCESS'')])
         (example_world [example_payment] [example_order]))
     = ServerError ''Webhook processing failed'' \<and>
   map status (payments (snd (orange_money_webhook
         (example_request [(''reference'', ''PAY_1000_abc''), (''status'', ''SUCCESS'')])
         (example_world [example_payment] [example_order])))) = [completed] \<and>
   orders (snd (orange_money_webhook
         (example_request [(''reference'', ''PAY_1000_abc''), (''status'', ''SUCCESS'')])
         (example_world [example_payment] [example_order]))) = [example_order] \<and>
   paymentStatus example_order = ''pending'' \<and> o_status example_order = o_shipped \<and>
   stripe_webhook example_constructEvent (example_request ''payment_intent.succeeded'')
       (example_world [example_card_payment] [example_order])
     = (StripeSignatureError
          ''Webhook Error: No signatures found matching the expected signature for payload'',
        example_world [example_card_payment] [example_order])"
proof -
  have same: "orange_money_webhook
      \<lparr>headers = [(''authorization'', ''Bearer forged'')], validation_errors = [],
       body = [(''reference'', ''PAY_1000_abc''), (''status'', ''SUCCESS'')]\<rparr>
      (example_world [example_payment] [example_order])
     = orange_money_webhook
         (example_request [(''reference'', ''PAY_1000_abc''), (''status'', ''SUCCESS'')])
         (example_world [example_payment] [example_order])"
    by (rule orange_money_webhook_body) (simp add: example_request_def)
  have rest: "fst (orange_money_webhook
         (example_request [(''reference'', ''PAY_1000_abc''), (''status'', ''SUCCESS'')])
         (example_world [example_payment] [example_order]))
     = ServerError ''Webhook processing failed'' \<and>
   map status (payments (snd (orange_money_webhook
         (example_request [(''reference'', ''PAY_1000_abc''), (''status'', ''SUCCESS'')])
         (example_world [example_payment] [example_order])))) = [completed] \<and>
   orders (snd (orange_money_webhook
         (example_request [(''reference'', ''PAY_1000_abc''), (''status'', ''SUCCESS'')])
         (example_world [example_payment] [example_order]))) = [example_order] \<and>
   paymentStatus example_order = ''pending'' \<and> o_status example_order = o_shipped"
    by (simp add: markCompleted_def orange_money_webhook_def
        update_order_paid_def save_order_def Order_findById_def
        validate_order_def paymentStatus_enum_def validation_failed_def
        save_payment_def stamp_payment_def pre_save_def Date_now_def
        Payment_findOne_paymentId_def loaded_def
        example_world_def example_payment_def example_order_def example_request_def)
  have sig: "stripe_webhook example_constructEvent (example_request ''payment_intent.succeeded'')
       (example_world [example_card_payment] [example_order])
     = (StripeSignatureError
          ''Webhook Error: No signatures found matching the expected signature for payload'',
        example_world [example_card_payment] [example_order])"
    by (simp add: stripe_webhook_def example_constructEvent_def example_request_def)
  from same rest sig show ?thesis by simp
qed

section \<open>Gateway failure during initiation\<close>





section \<open>Gateway transport errors\<close>

text \<open>
  C4: a transport error of the gateway never makes a Payment failed. When the gateway
  call of an initiation throws, the stored payments stay as they were and none is failed
  that was not; when the gateway call of the status route throws, the route changes
  nothing. No initiation and no status check stores a failed payment, whatever the
  gateway answers. A webhook stores one when, and only when, the provider reports the
  failure (\<^verbatim>\<open>FAILED\<close>, or the event \<^verbatim>\<open>payment_intent.payment_failed\<close>).
\<close>

theorem transport_error_never_fails_payment:
  "(OrangeMoneyAPI_initiatePayment token_post api_call = Threw e \<longrightarrow>
      prefix (payments w) (payments (snd (orange_money_initiate uid req token_post api_call w))) \<and>
      no_new_failed w (snd (orange_money_initiate uid req token_post api_call w))) \<and>
   (fst (MTNMoneyAPI_requestPayment token_post api_call w) = Threw e \<longrightarrow>
      prefix (payments w) (payments (snd (mtn_money_initiate uid req token_post api_call w))) \<and>
      no_new_failed w (snd (mtn_money_initiate uid req token_post api_call w))) \<and>
   (Payment_findOne_paymentId (Some pid) w = Some p \<and>
    check_gateway p token_post api_call = Threw e \<longrightarrow>
      snd (payment_status_route uid pid token_post api_call w) = w) \<and>
   no_new_failed w (snd (orange_money_initiate uid req token_post api_call w)) \<and>
   no_new_failed w (snd (mtn_money_initiate uid req token_post api_call w)) \<and>
   no_new_failed w (snd (stripe_create_intent uid req create_call w)) \<and>
   no_new_failed w (snd (payment_status_route uid pid token_post api_call w)) \<and>
   (map_of (body hook) ''status'' \<noteq> Some ''FAILED'' \<longrightarrow>
      no_new_failed w (snd (orange_money_webhook hook w))) \<and>
   ((\<forall>ev. constructEvent (body sreq) (map_of (headers sreq) ''stripe-signature'') = Returned ev
          \<longrightarrow> ev_type ev \<noteq> ''payment_intent.payment_failed'') \<longrightarrow>
      no_new_failed w (snd (stripe_webhook constructEvent sreq w))) \<and>
   (Payment_findOne_paymentId (map_of (body hook) ''reference'') w = Some p \<and>
    map_of (body hook) ''status'' = Some ''FAILED'' \<longrightarrow>
      (\<exists>w' p'. orange_money_webhook hook w = (WebhookSuccess, w') \<and>
         Payment_findOne_paymentId (map_of (body hook) ''reference'') w' = Some p' \<and>
         status p' = failed)) \<and>
   (constructEvent (body sreq) (map_of (headers sreq) ''stripe-signature'') = Returned fev \<and>
    ev_type fev = ''payment_intent.payment_failed'' \<and>
    Payment_findOne_paymentIntentId (map_of (ev_object fev) ''id'') w = Some p \<longrightarrow>
      (\<exists>w' p'. stripe_webhook constructEvent sreq w = (StripeReceived, w') \<and>
         Payment_findOne_paymentIntentId (map_of (ev_object fev) ''id'') w' = Some p' \<and>
         status p' = failed))"
proof (intro conjI impI)
  show "prefix (payments w) (payments (snd (orange_money_initiate uid req token_post api_call w)))"
    by (simp add: orange_money_initiate_world)
  show "prefix (payments w) (payments (snd (mtn_money_initiate uid req token_post api_call w)))"
    by (simp add: mtn_money_initiate_world)
next
  assume "Payment_findOne_paymentId (Some pid) w = Some p \<and>
    check_gateway p token_post api_call = Threw e"
  then show "snd (payment_status_route uid pid token_post api_call w) = w"
    using payment_status_route_gateway_threw [of pid w p token_post api_call e uid] by simp
next
  show "no_new_failed w (snd (orange_money_initiate uid req token_post api_call w))"
    by (rule orange_money_initiate_not_failed)
  show "no_new_failed w (snd (orange_money_initiate uid req token_post api_call w))"
    by (rule orange_money_initiate_not_failed)
  show "no_new_failed w (snd (mtn_money_initiate uid req token_post api_call w))"
    by (rule mtn_money_initiate_not_failed)
  show "no_new_failed w (snd (mtn_money_initiate uid req token_post api_call w))"
    by (rule mtn_money_initiate_not_failed)
  show "no_new_failed w (snd (stripe_create_intent uid req create_call w))"
    by (rule stripe_create_intent_not_failed)
  show "no_new_failed w (snd (payment_status_route uid pid token_post api_call w))"
    by (rule payment_status_route_not_failed)
next
  assume "map_of (body hook) ''status'' \<noteq> Some ''FAILED''"
  then show "no_new_failed w (snd (orange_money_webhook hook w))"
    by (rule orange_money_webhook_not_failed)
next
  assume "\<forall>ev. constructEvent (body sreq) (map_of (headers sreq) ''stripe-signature'') = Returned ev
          \<longrightarrow> ev_type ev \<noteq> ''payment_intent.payment_failed''"
  then show "no_new_failed w (snd (stripe_webhook constructEvent sreq w))"
    by (rule stripe_webhook_not_failed)
next
  assume "Payment_findOne_paymentId (map_of (body hook) ''reference'') w = Some p \<and>
    map_of (body hook) ''status'' = Some ''FAILED''"
  then show "\<exists>w' p'. orange_money_webhook hook w = (WebhookSuccess, w') \<and>
         Payment_findOne_paymentId (map_of (body hook) ''reference'') w' = Some p' \<and>
         status p' = failed"
    using orange_webhook_failed [of hook w p] by blast
next
  assume "constructEvent (body sreq) (map_of (headers sreq) ''stripe-signature'') = Returned fev \<and>
    ev_type fev = ''payment_intent.payment_failed'' \<and>
    Payment_findOne_paymentIntentId (map_of (ev_object fev) ''id'') w = Some p"
  then show "\<exists>w' p'. stripe_webhook constructEvent sreq w = (StripeReceived, w') \<and>
         Payment_findOne_paymentIntentId (map_of (ev_object fev) ''id'') w' = Some p' \<and>
         status p' = failed"
    using stripe_webhook_failed [of constructEvent sreq fev w p] by blast
qed

text \<open>
  C4 at the example, on a store that holds a failed card payment: the Orange Money token
  request and the MTN payment request throw during initiation, the status request
  throws during polling, a webhook reports \<^verbatim>\<open>SUCCESS\<close> and a Stripe event is
  \<^verbatim>\<open>payment_intent.succeeded\<close>: the failed payment is the only failed one afterwards.
  A webhook that reports \<^verbatim>\<open>FAILED\<close> and the Stripe event
  \<^verbatim>\<open>payment_intent.payment_failed\<close> store their payment as failed.
\<close>

theorem transport_error_never_fails_payment_witness:
  "prefix (payments (example_world [example_payment, example_card_payment\<lparr>status := failed\<rparr>] [example_order]))
     (payments (snd (orange_money_initiate 3 (example_request example_initiate_body)
        (Threw ''connect ECONNREFUSED'') (Threw ''not reached'')
        (example_world [example_payment, example_card_payment\<lparr>status := failed\<rparr>] [example_order])))) \<and>
   no_new_failed (example_world [example_payment, example_card_payment\<lparr>status := failed\<rparr>] [example_order])
     (snd (orange_money_initiate 3 (example_request example_initiate_body)
        (Threw ''connect ECONNREFUSED'') (Threw ''not reached'')
        (example_world [example_payment, example_card_payment\<lparr>status := failed\<rparr>] [example_order]))) \<and>
   prefix (payments (example_world [example_payment, example_card_payment\<lparr>status := failed\<rparr>] [example_order]))
     (payments (snd (mtn_money_initiate 3 (example_request example_initiate_body)
        (Returned [(''access_token'', ''t'')]) (Threw ''timeout'')
        (example_world [example_payment, example_card_payment\<lparr>status := failed\<rparr>] [example_order])))) \<and>
   no_new_failed (example_world [example_payment, example_card_payment\<lparr>status := failed\<rparr>] [example_order])
     (snd (mtn_money_initiate 3 (example_request example_initiate_body)
        (Returned [(''access_token'', ''t'')]) (Threw ''timeout'')
        (example_world [example_payment, example_card_payment\<lparr>status := failed\<rparr>] [example_order]))) \<and>
   snd (payment_status_route 3 ''PAY_1000_abc'' (Returned []) (Threw ''socket hang up'')
          (example_world [example_payment, example_card_payment\<lparr>status := failed\<rparr>] [example_order]))
     = example_world [example_payment, example_card_payment\<lparr>status := failed\<rparr>] [example_order] \<and>
   no_new_failed (example_world [example_payment, example_card_payment\<lparr>status := failed\<rparr>] [example_order])
     (snd (orange_money_webhook
        (example_request [(''reference'', ''PAY_1000_abc''), (''status'', ''SUCCESS'')])
        (example_world [example_payment, example_card_payment\<lparr>status := failed\<rparr>] [example_order]))) \<and>
   no_new_failed (example_world [example_payment\<lparr>status := failed\<rparr>, example_card_payment] [example_order])
     (snd (stripe_webhook example_constructEvent
        \<lparr>headers = [(''stripe-signature'', ''t=1,v1=good'')], validation_errors = [],
         body = ''payment_intent.succeeded''\<rparr>
        (example_world [example_payment\<lparr>status := failed\<rparr>, example_card_payment] [example_order]))) \<and>
   (\<exists>w' p'. orange_money_webhook
        (example_request [(''reference'', ''PAY_1000_abc''), (''status'', ''FAILED'')])
        (example_world [example_payment, example_card_payment] [example_order]) = (WebhookSuccess, w') \<and>
      Payment_findOne_paymentId (Some ''PAY_1000_abc'') w' = Some p' \<and> status p' = failed) \<and>
   (\<exists>w' p'. stripe_webhook example_constructEvent
        \<lparr>headers = [(''stripe-signature'', ''t=1,v1=good'')], validation_errors = [],
         body = ''payment_intent.payment_failed''\<rparr>
        (example_world [example_payment, example_card_payment] [example_order]) = (StripeReceived, w') \<and>
      Payment_findOne_paymentIntentId (Some ''pi_1'') w' = Some p' \<and> status p' = failed)"
proof -
  let ?w = "example_world [example_payment, example_card_payment\<lparr>status := failed\<rparr>] [example_order]"
  let ?w2 = "example_world [example_payment\<lparr>status := failed\<rparr>, example_card_payment] [example_order]"
  let ?w3 = "example_world [example_payment, example_card_payment] [example_order]"
  let ?req = "example_request example_initiate_body"
  let ?ok = "example_request [(''reference'', ''PAY_1000_abc''), (''status'', ''SUCCESS'')]"
  let ?ko = "example_request [(''reference'', ''PAY_1000_abc''), (''status'', ''FAILED'')]"
  let ?sreq = "\<lparr>headers = [(''stripe-signature'', ''t=1,v1=good'')], validation_errors = [],
         body = ''payment_intent.succeeded''\<rparr>"
  let ?freq = "\<lparr>headers = [(''stripe-signature'', ''t=1,v1=good'')], validation_errors = [],
         body = ''payment_intent.payment_failed''\<rparr>"
  let ?fev = "\<lparr>ev_type = ''payment_intent.payment_failed'', ev_object = [(''id'', ''pi_1'')]\<rparr>"
  have o: "OrangeMoneyAPI_initiatePayment (Threw ''connect ECONNREFUSED'') (Threw ''not reached'')
             = Threw ''Failed to initiate Orange Money payment''"
    by (simp add: OrangeMoneyAPI_initiatePayment_def OrangeMoneyAPI_getAccessToken_def)
  have m: "fst (MTNMoneyAPI_requestPayment (Returned [(''access_token'', ''t'')]) (Threw ''timeout'') ?w)
             = Threw ''Failed to initiate MTN Money payment''"
    by (simp add: MTNMoneyAPI_requestPayment_def MTNMoneyAPI_getAccessToken_def Date_now_def
          Math_random_suffix_def)
  have f: "Payment_findOne_paymentId (Some ''PAY_1000_abc'') ?w = Some example_payment"
    by (simp add: Payment_findOne_paymentId_def example_world_def example_payment_def loaded_def)
  have g: "check_gateway example_payment (Returned []) (Threw ''socket hang up'')
             = Threw ''Failed to check Orange Money payment status''"
    by (simp add: check_gateway_def OrangeMoneyAPI_checkPaymentStatus_def
          OrangeMoneyAPI_getAccessToken_def falsy_def example_payment_def)
  have h: "map_of (body ?ok) ''status'' \<noteq> Some ''FAILED''"
    by (simp add: example_request_def)
  have s: "\<forall>ev. example_constructEvent (body ?sreq) (map_of (headers ?sreq) ''stripe-signature'') = Returned ev
          \<longrightarrow> ev_type ev \<noteq> ''payment_intent.payment_failed''"
    by (simp add: example_constructEvent_def)
  have k: "Payment_findOne_paymentId (map_of (body ?ko) ''reference'') ?w3 = Some example_payment \<and>
    map_of (body ?ko) ''status'' = Some ''FAILED''"
    by (simp add: Payment_findOne_paymentId_def example_world_def example_payment_def loaded_def
          example_request_def)
  have fe: "example_constructEvent (body ?freq) (map_of (headers ?freq) ''stripe-signature'') = Returned ?fev \<and>
    ev_type ?fev = ''payment_intent.payment_failed'' \<and>
    Payment_findOne_paymentIntentId (map_of (ev_object ?fev) ''id'') ?w3 = Some example_card_payment"
    by (simp add: example_constructEvent_def Payment_findOne_paymentIntentId_def example_world_def
          example_payment_def example_card_payment_def loaded_def)
  note T = transport_error_never_fails_payment
  note T1 = T [where w = ?w and uid = 3 and req = ?req
      and token_post = "Threw ''connect ECONNREFUSED''" and api_call = "Threw ''not reached''"
      and e = "''Failed to initiate Orange Money payment''", THEN conjunct1, THEN mp, OF o]
  note T2 = T [where w = ?w and uid = 3 and req = ?req
      and token_post = "Returned [(''access_token'', ''t'')]" and api_call = "Threw ''timeout''"
      and e = "''Failed to initiate MTN Money payment''",
      THEN conjunct2, THEN conjunct1, THEN mp, OF m]
  note T3 = T [where w = ?w and uid = 3 and pid = "''PAY_1000_abc''" and p = example_payment
      and token_post = "Returned []" and api_call = "Threw ''socket hang up''"
      and e = "''Failed to check Orange Money payment status''",
      THEN conjunct2, THEN conjunct2, THEN conjunct1, THEN mp, OF conjI [OF f g]]
  note T8 = T [where w = ?w and hook = ?ok,
      THEN conjunct2, THEN conjunct2, THEN conjunct2, THEN conjunct2, THEN conjunct2,
      THEN conjunct2, THEN conjunct2, THEN conjunct1, THEN mp, OF h]
  note T9 = T [where w = ?w2 and sreq = ?sreq and constructEvent = example_constructEvent,
      THEN conjunct2, THEN conjunct2, THEN conjunct2, THEN conjunct2, THEN conjunct2,
      THEN conjunct2, THEN conjunct2, THEN conjunct2, THEN conjunct1, THEN mp, OF s]
  note T10 = T [where w = ?w3 and hook = ?ko and p = example_payment,
      THEN conjunct2, THEN conjunct2, THEN conjunct2, THEN conjunct2, THEN conjunct2,
      THEN conjunct2, THEN conjunct2, THEN conjunct2, THEN conjunct2, THEN conjunct1, THEN mp, OF k]
  note T11 = T [where w = ?w3 and sreq = ?freq and constructEvent = example_constructEvent
      and fev = ?fev and p = example_card_payment,
      THEN conjunct2, THEN conjunct2, THEN conjunct2, THEN conjunct2, THEN conjunct2,
      THEN conjunct2, THEN conjunct2, THEN conjunct2, THEN conjunct2, THEN conjunct2, THEN mp, OF fe]
  have a10: "\<exists>w' p'. orange_money_webhook ?ko ?w3 = (WebhookSuccess, w') \<and>
      Payment_findOne_paymentId (Some ''PAY_1000_abc'') w' = Some p' \<and> status p' = failed"
    using T10 by (simp add: example_request_def)
  have a11: "\<exists>w' p'. stripe_webhook example_constructEvent ?freq ?w3 = (StripeReceived, w') \<and>
      Payment_findOne_paymentIntentId (Some ''pi_1'') w' = Some p' \<and> status p' = failed"
    using T11 by simp
  from T1 T2 T3 T8 T9 a10 a11 show ?thesis by simp
qed

section \<open>Payable orders\<close>

text \<open>
  C6: a payment initiation for an Order that is already paid is rejected and creates no
  Payment; an initiation is accepted only for an order of the requesting user. No
  initiation route ever answers 200 or stores a Payment, whatever the order and its
  \<^verbatim>\<open>paymentStatus\<close>: a valid request for an order that is missing or has another buyer is
  answered 404 and changes nothing, and one for an order of the requesting user is
  answered 500, since the save of the new Payment is rejected.
\<close>

theorem paid_order_creates_no_payment:
  "http_status (fst (stripe_create_intent uid req create_call w)) \<noteq> 200 \<and>
   payments (snd (stripe_create_intent uid req create_call w)) = payments w \<and>
   http_status (fst (orange_money_initiate uid req token_post api_call w)) \<noteq> 200 \<and>
   payments (snd (orange_money_initiate uid req token_post api_call w)) = payments w \<and>
   http_status (fst (mtn_money_initiate uid req token_post api_call w)) \<noteq> 200 \<and>
   payments (snd (mtn_money_initiate uid req token_post api_call w)) = payments w \<and>
   (validation_errors req = [] \<and>
    (Order_findById (b_orderId (body req)) w = None \<or>
     (\<exists>ord. Order_findById (b_orderId (body req)) w = Some ord \<and> buyer ord \<noteq> uid)) \<longrightarrow>
      stripe_create_intent uid req create_call w = (NotFound ''Order not found'', w) \<and>
      orange_money_initiate uid req token_post api_call w = (NotFound ''Order not found'', w) \<and>
      mtn_money_initiate uid req token_post api_call w = (NotFound ''Order not found'', w)) \<and>
   (validation_errors req = [] \<and> Order_findById (b_orderId (body req)) w = Some ord \<and>
    buyer ord = uid \<longrightarrow>
      http_status (fst (stripe_create_intent uid req (Returned paymentIntent) w)) = 500 \<and>
      http_status (fst (orange_money_initiate uid req token_post api_call w)) = 500 \<and>
      http_status (fst (mtn_money_initiate uid req token_post api_call w)) = 500)"
proof (intro conjI impI)
  show "http_status (fst (stripe_create_intent uid req create_call w)) \<noteq> 200"
    "payments (snd (stripe_create_intent uid req create_call w)) = payments w"
    by (simp_all add: stripe_create_intent_world)
  show "http_status (fst (orange_money_initiate uid req token_post api_call w)) \<noteq> 200"
    "payments (snd (orange_money_initiate uid req token_post api_call w)) = payments w"
    by (simp_all add: orange_money_initiate_world)
  show "http_status (fst (mtn_money_initiate uid req token_post api_call w)) \<noteq> 200"
    "payments (snd (mtn_money_initiate uid req token_post api_call w)) = payments w"
    by (simp_all add: mtn_money_initiate_world)
next
  assume r: "validation_errors req = [] \<and>
    (Order_findById (b_orderId (body req)) w = None \<or>
     (\<exists>ord. Order_findById (b_orderId (body req)) w = Some ord \<and> buyer ord \<noteq> uid))"
  then show "stripe_create_intent uid req create_call w = (NotFound ''Order not found'', w)"
    by (auto simp: stripe_create_intent_def)
  from r show "orange_money_initiate uid req token_post api_call w = (NotFound ''Order not found'', w)"
    by (auto simp: orange_money_initiate_def)
  from r show "mtn_money_initiate uid req token_post api_call w = (NotFound ''Order not found'', w)"
    by (auto simp: mtn_money_initiate_def)
next
  assume a: "validation_errors req = [] \<and> Order_findById (b_orderId (body req)) w = Some ord \<and>
    buyer ord = uid"
  then show "http_status (fst (stripe_create_intent uid req (Returned paymentIntent) w)) = 500"
    by (simp add: stripe_create_intent_def case_prod_beta save_new_Payment)
  from a obtain m where "fst (orange_money_initiate uid req token_post api_call w) = ServerError m"
    using orange_money_initiate_owned [of req w ord uid token_post api_call] by blast
  then show "http_status (fst (orange_money_initiate uid req token_post api_call w)) = 500" by simp
  from a obtain m where "fst (mtn_money_initiate uid req token_post api_call w) = ServerError m"
    using mtn_money_initiate_owned [of req w ord uid token_post api_call] by blast
  then show "http_status (fst (mtn_money_initiate uid req token_post api_call w)) = 500" by simp
qed

text \<open>
  C6 at the example: user 4 is not the buyer of order 7 and gets 404; user 3 is, the
  order is paid (\<^verbatim>\<open>paymentStatus\<close> \<^verbatim>\<open>paid\<close>, or \<^verbatim>\<open>completed\<close>, the value of the enum), and
  each route answers 500 and leaves the stored payments as they were.
\<close>

theorem paid_order_creates_no_payment_witness:
  "orange_money_initiate 4 (example_request example_initiate_body)
      (Returned [(''access_token'', ''t'')]) (Returned [(''transaction_id'', ''abc124'')])
      (example_world [example_payment] [example_order\<lparr>paymentStatus := ''paid''\<rparr>])
     = (NotFound ''Order not found'',
        example_world [example_payment] [example_order\<lparr>paymentStatus := ''paid''\<rparr>]) \<and>
   http_status (fst (stripe_create_intent 3 (example_request example_initiate_body)
      (Returned [(''id'', ''pi_2''), (''client_secret'', ''s'')])
      (example_world [example_payment] [example_order\<lparr>paymentStatus := ''paid''\<rparr>]))) = 500 \<and>
   http_status (fst (orange_money_initiate 3 (example_request example_initiate_body)
      (Returned [(''access_token'', ''t'')]) (Returned [(''transaction_id'', ''abc124'')])
      (example_world [example_payment] [example_order\<lparr>paymentStatus := ''paid''\<rparr>]))) = 500 \<and>
   http_status (fst (mtn_money_initiate 3 (example_request example_initiate_body)
      (Returned [(''access_token'', ''t'')]) (Returned [(''transaction_id'', ''abc124'')])
      (example_world [example_payment] [example_order\<lparr>paymentStatus := ''paid''\<rparr>]))) = 500 \<and>
   payments (snd (orange_money_initiate 3 (example_request example_initiate_body)
      (Returned [(''access_token'', ''t'')]) (Returned [(''transaction_id'', ''abc124'')])
      (example_world [example_payment] [example_order\<lparr>paymentStatus := ''paid''\<rparr>])))
     = [example_payment] \<and>
   http_status (fst (orange_money_initiate 3 (example_request example_initiate_body)
      (Returned [(''access_token'', ''t'')]) (Returned [(''transaction_id'', ''abc124'')])
      (example_world [example_payment] [example_order\<lparr>paymentStatus := ''completed''\<rparr>]))) = 500 \<and>
   payments (snd (orange_money_initiate 3 (example_request example_initiate_body)
      (Returned [(''access_token'', ''t'')]) (Returned [(''transaction_id'', ''abc124'')])
      (example_world [example_payment] [example_order\<lparr>paymentStatus := ''completed''\<rparr>])))
     = [example_payment]"
proof -
  let ?paid = "example_order\<lparr>paymentStatus := ''paid''\<rparr>"
  let ?done = "example_order\<lparr>paymentStatus := ''completed''\<rparr>"
  let ?w = "example_world [example_payment] [?paid]"
  let ?w2 = "example_world [example_payment] [?done]"
  let ?req = "example_request example_initiate_body"
  have v: "validation_errors ?req = []"
    by (simp add: example_request_def)
  have o: "Order_findById (b_orderId (body ?req)) ?w = Some ?paid"
    "Order_findById (b_orderId (body ?req)) ?w2 = Some ?done"
    by (simp_all add: Order_findById_def example_world_def example_order_def example_request_def
          example_initiate_body_def)
  have u: "buyer ?paid = 3" "buyer ?paid \<noteq> 4" "buyer ?done = 3"
    by (simp_all add: example_order_def)
  have ps: "payments ?w = [example_payment]" "payments ?w2 = [example_payment]"
    by (simp_all add: example_world_def)
  have r: "validation_errors ?req = [] \<and>
    (Order_findById (b_orderId (body ?req)) ?w = None \<or>
     (\<exists>ord. Order_findById (b_orderId (body ?req)) ?w = Some ord \<and> buyer ord \<noteq> 4))"
    using v o u by simp
  have a: "validation_errors ?req = [] \<and> Order_findById (b_orderId (body ?req)) ?w = Some ?paid \<and>
    buyer ?paid = 3"
    using v o u by simp
  have a2: "validation_errors ?req = [] \<and> Order_findById (b_orderId (body ?req)) ?w2 = Some ?done \<and>
    buyer ?done = 3"
    using v o u by simp
  note T = paid_order_creates_no_payment
  note R = T [where req = ?req and w = ?w and uid = 4
      and token_post = "Returned [(''access_token'', ''t'')]"
      and api_call = "Returned [(''transaction_id'', ''abc124'')]",
      THEN conjunct2, THEN conjunct2, THEN conjunct2, THEN conjunct2, THEN conjunct2,
      THEN conjunct2, THEN conjunct1, THEN mp, OF r]
  note A = T [where req = ?req and w = ?w and uid = 3 and ord = ?paid
      and token_post = "Returned [(''access_token'', ''t'')]"
      and api_call = "Returned [(''transaction_id'', ''abc124'')]"
      and paymentIntent = "[(''id'', ''pi_2''), (''client_secret'', ''s'')]",
      THEN conjunct2, THEN conjunct2, THEN conjunct2, THEN conjunct2, THEN conjunct2,
      THEN conjunct2, THEN conjunct2, THEN mp, OF a]
  note A2 = T [where req = ?req and w = ?w2 and uid = 3 and ord = ?done
      and token_post = "Returned [(''access_token'', ''t'')]"
      and api_call = "Returned [(''transaction_id'', ''abc124'')]",
      THEN conjunct2, THEN conjunct2, THEN conjunct2, THEN conjunct2, THEN conjunct2,
      THEN conjunct2, THEN conjunct2, THEN mp, OF a2]
  note P = T [where req = ?req and w = ?w and uid = 3
      and token_post = "Returned [(''access_token'', ''t'')]"
      and api_call = "Returned [(''transaction_id'', ''abc124'')]"]
  note P2 = T [where req = ?req and w = ?w2 and uid = 3
      and token_post = "Returned [(''access_token'', ''t'')]"
      and api_call = "Returned [(''transaction_id'', ''abc124'')]"]
  from R A A2 P P2 show ?thesis by (simp add: ps)
qed

section \<open>Creating a payment record\<close>

text \<open>
  C9: creating a Payment from a valid input produces a record with status \<^verbatim>\<open>pending\<close>, a
  unique reference and an expiry 30 minutes after its creation. The code at the failing
  input, 60000 XOF by Orange Money for order 7 of user 3: \<^verbatim>\<open>new Payment({...})\<close> has no
  \<^verbatim>\<open>paymentId\<close>, and \<^verbatim>\<open>save()\<close> validates before the pre-save hook that would generate
  one, so the save is rejected with \<^verbatim>\<open>Payment ID is required\<close> and no record is stored.
  The same holds for every input.
\<close>

theorem create_payment_rejected_by_validation:
  "fst (create_payment example_payment_init (example_world [] [example_order]))
     = Inl ''Payment validation failed: paymentId: Payment ID is required'' \<and>
   payments (snd (create_payment example_payment_init (example_world [] [example_order]))) = [] \<and>
   status (fst (new_Payment i w)) = pending \<and>
   paymentId (fst (new_Payment i w)) = None \<and>
   isl (fst (create_payment i w)) \<and>
   payments (snd (create_payment i w)) = payments w"
proof -
  have a: "0 \<le> i_amount example_payment_init" by (simp add: example_payment_init_def)
  have e: "payments (example_world [] [example_order]) = []" by (simp add: example_world_def)
  have n: "status (fst (new_Payment i w)) = pending" "paymentId (fst (new_Payment i w)) = None"
    by (simp_all add: new_Payment_def Date_now_def)
  show ?thesis
    by (simp add: create_payment_rejected validation_message_amount [OF a] e n)
qed

end
